theory Spec2Isabelle
  imports Main
begin

section \<open>Values, errors and configuration\<close>

text \<open>
  The streams of \<^verbatim>\<open>tap_sherpaan/streams.py\<close> pass around dictionaries whose
  key fields (\<^verbatim>\<open>ClientCode\<close>, \<^verbatim>\<open>OrderNumber\<close>) the schemas declare as
  \<^verbatim>\<open>th.StringType\<close>: the raw value is a string, or \<^verbatim>\<open>None\<close> for an empty
  element. A field that is not in the dictionary at all is a missing key of the map.
\<close>

datatype pyval = PNone | PStr string

text \<open>Python's truth value of such a value (\<^verbatim>\<open>if v:\<close>, \<^verbatim>\<open>if not v:\<close>).\<close>

fun truthy :: "pyval \<Rightarrow> bool" where
  "truthy PNone = False"
| "truthy (PStr s) = (s \<noteq> [])"

type_synonym item = "string \<rightharpoonup> pyval"
type_synonym sync_context = "string \<rightharpoonup> pyval"

text \<open>\<^verbatim>\<open>d.get(k)\<close>: the value, or \<^verbatim>\<open>None\<close> when the key is missing.\<close>

definition dict_get :: "item \<Rightarrow> string \<Rightarrow> pyval" where
  "dict_get d k = (case d k of None \<Rightarrow> PNone | Some v \<Rightarrow> v)"

text \<open>The dictionary literal \<^verbatim>\<open>{k: v}\<close>.\<close>

definition dict1 :: "string \<Rightarrow> pyval \<Rightarrow> sync_context" where
  "dict1 k v = [k \<mapsto> v]"

text \<open>
  The token is service-issued; the type hints say \<^verbatim>\<open>int\<close>, the schemas say string.
  Python's \<^verbatim>\<open>==\<close> never identifies an integer with a string, as the two
  constructors are never equal.
\<close>

datatype token = TInt int | TStr string

text \<open>The exceptions the modelled code can raise, and the failures of the remote call.\<close>

datatype error =
    KeyError string
  | TypeError
  | AttributeError
  | TransportError
  | MalformedResponse

text \<open>
  \<^verbatim>\<open>self.config\<close>: the settings the streams read. \<^verbatim>\<open>None\<close> is a setting that is
  not in the dictionary (\<^verbatim>\<open>config["k"]\<close> raises \<^verbatim>\<open>KeyError\<close>,
  \<^verbatim>\<open>config.get("k", d)\<close> gives \<^verbatim>\<open>d\<close>).
\<close>

record config =
  security_code :: "string option"
  chunk_size :: "int option"
  warehouse_group_code :: "string option"

text \<open>
  A stream object. Every stream has its configuration; the two child streams keep the
  key handed down by the parent in an attribute that \<^verbatim>\<open>get_records\<close> assigns
  (\<^verbatim>\<open>None\<close> here: the attribute has not been assigned yet).
\<close>

record sherpa_stream =
  config :: config

record supplier_info_stream = sherpa_stream +
  current_client_code :: "pyval option"

record purchase_info_stream = sherpa_stream +
  current_purchase_number :: "pyval option"

section \<open>Formatting\<close>

text \<open>\<^verbatim>\<open>str\<close> of an integer, in decimal; what an f-string writes for \<^verbatim>\<open>{token}\<close>.\<close>

definition digit_char :: "nat \<Rightarrow> char" where
  "digit_char d = ''0123456789'' ! d"

function str_nat :: "nat \<Rightarrow> string" where
  "str_nat n = (if n < 10 then [digit_char n] else str_nat (n div 10) @ [digit_char (n mod 10)])"
  by pat_completeness auto
termination
  by (relation "measure id") auto

declare str_nat.simps [simp del]

definition str_int :: "int \<Rightarrow> string" where
  "str_int i = (if i < 0 then CHR ''-'' # str_nat (nat (- i)) else str_nat (nat i))"

fun str_token :: "token \<Rightarrow> string" where
  "str_token (TInt i) = str_int i"
| "str_token (TStr s) = s"

fun str_pyval :: "pyval \<Rightarrow> string" where
  "str_pyval PNone = ''None''"
| "str_pyval (PStr s) = s"

text \<open>
  \<^verbatim>\<open>html.escape(s)\<close> with its default \<^verbatim>\<open>quote=True\<close>: five replacements, one
  after the other, the ampersand first.
\<close>

definition replace_char :: "char \<Rightarrow> string \<Rightarrow> string \<Rightarrow> string" where
  "replace_char c r s = concat (map (\<lambda>x. if x = c then r else [x]) s)"

definition html_escape :: "string \<Rightarrow> string" where
  "html_escape s =
     replace_char (CHR 0x27) ''&#x27;''
       (replace_char (CHR 0x22) ''&quot;''
         (replace_char CHR ''>'' ''&gt;''
           (replace_char CHR ''<'' ''&lt;''
             (replace_char CHR ''&'' ''&amp;'' s))))"

text \<open>
  The HTML-escaped form of a text in the words of the library's documentation: the
  characters \<^verbatim>\<open>&\<close>, \<^verbatim>\<open><\<close> and \<^verbatim>\<open>>\<close>, the double quote and the single quote
  each become their entity, and every other character stays.
\<close>

definition html_entity :: "char \<Rightarrow> string" where
  "html_entity x =
     (if x = CHR ''&'' then ''&amp;''
      else if x = CHR ''<'' then ''&lt;''
      else if x = CHR ''>'' then ''&gt;''
      else if x = CHR 0x22 then ''&quot;''
      else if x = CHR 0x27 then ''&#x27;''
      else [x])"

section \<open>Envelope templates\<close>


definition ChangedStockStream_envelope :: "string \<Rightarrow> string \<Rightarrow> string \<Rightarrow> string" where
  \<open>ChangedStockStream_envelope code tok cnt =
       ''<?xml version="1.0" encoding="utf-8"?>\<newline>''
     @ ''<soap12:Envelope xmlns:soap12="http://www.w3.org/2003/05/soap-envelope">\<newline>''
     @ ''  <soap12:Body>\<newline>''
     @ ''    <tns:ChangedStock xmlns:tns="http://sherpa.sherpaan.nl/">\<newline>''
     @ ''      <tns:securityCode>''
     @ code
     @ ''</tns:securityCode>\<newline>''
     @ ''      <tns:token>''
     @ tok
     @ ''</tns:token>\<newline>''
     @ ''      <tns:maxResult>''
     @ cnt
     @ ''</tns:maxResult>\<newline>''
     @ ''    </tns:ChangedStock>\<newline>''
     @ ''  </soap12:Body>\<newline>''
     @ ''</soap12:Envelope>''\<close>

definition ChangedSuppliersStream_envelope :: "string \<Rightarrow> string \<Rightarrow> string \<Rightarrow> string" where
  \<open>ChangedSuppliersStream_envelope code tok cnt =
       ''<?xml version="1.0" encoding="utf-8"?>\<newline>''
     @ ''<soap12:Envelope xmlns:soap12="http://www.w3.org/2003/05/soap-envelope">\<newline>''
     @ ''  <soap12:Body>\<newline>''
     @ ''    <tns:ChangedSuppliers xmlns:tns="http://sherpa.sherpaan.nl/">\<newline>''
     @ ''      <tns:securityCode>''
     @ code
     @ ''</tns:securityCode>\<newline>''
     @ ''      <tns:token>''
     @ tok
     @ ''</tns:token>\<newline>''
     @ ''      <tns:count>''
     @ cnt
     @ ''</tns:count>\<newline>''
     @ ''    </tns:ChangedSuppliers>\<newline>''
     @ ''  </soap12:Body>\<newline>''
     @ ''</soap12:Envelope>''\<close>

definition SupplierInfoStream_envelope :: "string \<Rightarrow> string \<Rightarrow> string" where
  \<open>SupplierInfoStream_envelope code supplier =
       ''<?xml version="1.0" encoding="utf-8"?>\<newline>''
     @ ''<soap12:Envelope xmlns:soap12="http://www.w3.org/2003/05/soap-envelope">\<newline>''
     @ ''  <soap12:Body>\<newline>''
     @ ''    <tns:SupplierInfo xmlns:tns="http://sherpa.sherpaan.nl/">\<newline>''
     @ ''      <tns:securityCode>''
     @ code
     @ ''</tns:securityCode>\<newline>''
     @ ''      <tns:supplierCode>''
     @ supplier
     @ ''</tns:supplierCode>\<newline>''
     @ ''    </tns:SupplierInfo>\<newline>''
     @ ''  </soap12:Body>\<newline>''
     @ ''</soap12:Envelope>''\<close>



definition ChangedPurchasesStream_envelope :: "string \<Rightarrow> string \<Rightarrow> string \<Rightarrow> string" where
  \<open>ChangedPurchasesStream_envelope code tok cnt =
       ''<?xml version="1.0" encoding="utf-8"?>\<newline>''
     @ ''<soap12:Envelope xmlns:soap12="http://www.w3.org/2003/05/soap-envelope">\<newline>''
     @ ''  <soap12:Body>\<newline>''
     @ ''    <tns:ChangedPurchases xmlns:tns="http://sherpa.sherpaan.nl/">\<newline>''
     @ ''      <tns:securityCode>''
     @ code
     @ ''</tns:securityCode>\<newline>''
     @ ''      <tns:token>''
     @ tok
     @ ''</tns:token>\<newline>''
     @ ''      <tns:count>''
     @ cnt
     @ ''</tns:count>\<newline>''
     @ ''    </tns:ChangedPurchases>\<newline>''
     @ ''  </soap12:Body>\<newline>''
     @ ''</soap12:Envelope>''\<close>

definition PurchaseInfoStream_envelope :: "string \<Rightarrow> string \<Rightarrow> string" where
  \<open>PurchaseInfoStream_envelope code purchase =
       ''<?xml version="1.0" encoding="utf-8"?>\<newline>''
     @ ''<soap12:Envelope xmlns:soap12="http://www.w3.org/2003/05/soap-envelope">\<newline>''
     @ ''  <soap12:Body>\<newline>''
     @ ''    <tns:PurchaseInfo xmlns:tns="http://sherpa.sherpaan.nl/">\<newline>''
     @ ''      <tns:securityCode>''
     @ code
     @ ''</tns:securityCode>\<newline>''
     @ ''      <tns:purchaseNumber>''
     @ purchase
     @ ''</tns:purchaseNumber>\<newline>''
     @ ''    </tns:PurchaseInfo>\<newline>''
     @ ''  </soap12:Body>\<newline>''
     @ ''</soap12:Envelope>''\<close>



section \<open>Envelope builders\<close>


definition ChangedStockStream_get_soap_envelope ::
  "'a sherpa_stream_scheme \<Rightarrow> token \<Rightarrow> int \<Rightarrow> error + string" where
  "ChangedStockStream_get_soap_envelope self tok cnt =
     (case security_code (config self) of
        None \<Rightarrow> Inl (KeyError ''security_code'')
      | Some code \<Rightarrow> Inr (ChangedStockStream_envelope code (str_token tok) (str_int cnt)))"

definition ChangedSuppliersStream_get_soap_envelope ::
  "'a sherpa_stream_scheme \<Rightarrow> token \<Rightarrow> int \<Rightarrow> error + string" where
  "ChangedSuppliersStream_get_soap_envelope self tok cnt =
     (case security_code (config self) of
        None \<Rightarrow> Inl (KeyError ''security_code'')
      | Some code \<Rightarrow> Inr (ChangedSuppliersStream_envelope code (str_token tok) (str_int cnt)))"

text \<open>
  The supplier child stream ignores \<^verbatim>\<open>token\<close>, \<^verbatim>\<open>count\<close> and
  \<^verbatim>\<open>**kwargs\<close>. It reads \<^verbatim>\<open>self._current_client_code\<close> and escapes it before
  the f-string is evaluated; an attribute that was never assigned, and \<^verbatim>\<open>None\<close>
  (which has no \<^verbatim>\<open>replace\<close>), raise \<^verbatim>\<open>AttributeError\<close>.
\<close>

definition SupplierInfoStream_get_soap_envelope ::
  "supplier_info_stream \<Rightarrow> token \<Rightarrow> int \<Rightarrow> error + string" where
  "SupplierInfoStream_get_soap_envelope self tok cnt =
     (case current_client_code self of
        None \<Rightarrow> Inl AttributeError
      | Some PNone \<Rightarrow> Inl AttributeError
      | Some (PStr c) \<Rightarrow>
          (let encoded_supplier_code = html_escape c in
           case security_code (config self) of
             None \<Rightarrow> Inl (KeyError ''security_code'')
           | Some code \<Rightarrow> Inr (SupplierInfoStream_envelope code encoded_supplier_code)))"



definition ChangedPurchasesStream_get_soap_envelope ::
  "'a sherpa_stream_scheme \<Rightarrow> token \<Rightarrow> int \<Rightarrow> error + string" where
  "ChangedPurchasesStream_get_soap_envelope self tok cnt =
     (case security_code (config self) of
        None \<Rightarrow> Inl (KeyError ''security_code'')
      | Some code \<Rightarrow> Inr (ChangedPurchasesStream_envelope code (str_token tok) (str_int cnt)))"

text \<open>
  The purchase child stream also ignores its arguments; it writes
  \<^verbatim>\<open>self._current_purchase_number\<close> into the f-string as it is.
\<close>

definition PurchaseInfoStream_get_soap_envelope ::
  "purchase_info_stream \<Rightarrow> token \<Rightarrow> int \<Rightarrow> error + string" where
  "PurchaseInfoStream_get_soap_envelope self tok cnt =
     (case security_code (config self) of
        None \<Rightarrow> Inl (KeyError ''security_code'')
      | Some code \<Rightarrow>
          (case current_purchase_number self of
             None \<Rightarrow> Inl AttributeError
           | Some v \<Rightarrow> Inr (PurchaseInfoStream_envelope code (str_pyval v))))"



section \<open>Reading records\<close>

text \<open>
  \<^verbatim>\<open>get_records\<close> hands the work to \<^verbatim>\<open>get_records_with_token_pagination\<close> of the
  base class, which is not in \<^verbatim>\<open>streams.py\<close>. Here it is an argument: any function
  from the envelope builder, the service name, the items key, the context, the page size
  and the outside world to the records it yields, how it ended, and the world after it.
  \<^verbatim>\<open>get_records\<close> is a generator; the model is the run that consumes it to its end.
\<close>

datatype status = Completed | Raised error | OutOfFuel

record 'w run =
  yielded :: "item list"
  status :: status
  world :: 'w

type_synonym 'w engine =
  "(token \<Rightarrow> int \<Rightarrow> error + string) \<Rightarrow> string \<Rightarrow> string \<Rightarrow> sync_context option \<Rightarrow> int
     \<Rightarrow> 'w \<Rightarrow> 'w run"

text \<open>\<^verbatim>\<open>self.config.get("chunk_size", 200)\<close>\<close>

definition page_size_of :: "config \<Rightarrow> int" where
  "page_size_of c = (case chunk_size c of None \<Rightarrow> 200 | Some n \<Rightarrow> n)"

definition ChangedSuppliersStream_get_records ::
  "'w engine \<Rightarrow> 'a sherpa_stream_scheme \<Rightarrow> sync_context option \<Rightarrow> 'w \<Rightarrow> 'w run" where
  "ChangedSuppliersStream_get_records engine self context w =
     (let page_size = page_size_of (config self) in
      engine (ChangedSuppliersStream_get_soap_envelope self) ''ChangedSuppliers''
        ''ClientCodeToken'' context page_size w)"

text \<open>Only records with a truthy \<^verbatim>\<open>record.get("OrderNumber")\<close> are passed on.\<close>

definition ChangedPurchasesStream_get_records ::
  "'w engine \<Rightarrow> 'a sherpa_stream_scheme \<Rightarrow> sync_context option \<Rightarrow> 'w \<Rightarrow> 'w run" where
  "ChangedPurchasesStream_get_records engine self context w =
     (let page_size = page_size_of (config self);
          r = engine (ChangedPurchasesStream_get_soap_envelope self) ''ChangedPurchases''
                ''PurchaseCodeToken'' context page_size w
      in r\<lparr>yielded := filter (\<lambda>rec. truthy (dict_get rec ''OrderNumber'')) (yielded r)\<rparr>)"

text \<open>
  The child streams first store the parent's key: \<^verbatim>\<open>context["client_code"]\<close> raises
  \<^verbatim>\<open>TypeError\<close> when \<^verbatim>\<open>context\<close> is \<^verbatim>\<open>None\<close> and \<^verbatim>\<open>KeyError\<close> when the key is
  missing. The stream object is returned with the run, since the call assigns to it.
\<close>

definition SupplierInfoStream_get_records ::
  "'w engine \<Rightarrow> supplier_info_stream \<Rightarrow> sync_context option \<Rightarrow> 'w
     \<Rightarrow> supplier_info_stream \<times> 'w run" where
  "SupplierInfoStream_get_records engine self context w =
     (case context of
        None \<Rightarrow> (self, \<lparr>yielded = [], status = Raised TypeError, world = w\<rparr>)
      | Some ctx \<Rightarrow>
          (case ctx ''client_code'' of
             None \<Rightarrow>
               (self, \<lparr>yielded = [], status = Raised (KeyError ''client_code''), world = w\<rparr>)
           | Some v \<Rightarrow>
               (let self' = self\<lparr>current_client_code := Some v\<rparr>;
                    page_size = page_size_of (config self')
                in (self', engine (SupplierInfoStream_get_soap_envelope self') ''SupplierInfo''
                             ''ResponseValue'' context page_size w))))"

definition PurchaseInfoStream_get_records ::
  "'w engine \<Rightarrow> purchase_info_stream \<Rightarrow> sync_context option \<Rightarrow> 'w
     \<Rightarrow> purchase_info_stream \<times> 'w run" where
  "PurchaseInfoStream_get_records engine self context w =
     (case context of
        None \<Rightarrow> (self, \<lparr>yielded = [], status = Raised TypeError, world = w\<rparr>)
      | Some ctx \<Rightarrow>
          (case ctx ''purchase_number'' of
             None \<Rightarrow>
               (self, \<lparr>yielded = [], status = Raised (KeyError ''purchase_number''), world = w\<rparr>)
           | Some v \<Rightarrow>
               (let self' = self\<lparr>current_purchase_number := Some v\<rparr>;
                    page_size = page_size_of (config self')
                in (self', engine (PurchaseInfoStream_get_soap_envelope self') ''PurchaseInfo''
                             ''ResponseValue'' context page_size w))))"

section \<open>Child contexts\<close>

text \<open>
  \<^verbatim>\<open>ChangedSuppliersStream.get_child_context\<close>: the record's \<^verbatim>\<open>ClientCode\<close>,
  whatever it is; \<^verbatim>\<open>record["ClientCode"]\<close> raises \<^verbatim>\<open>KeyError\<close> when it is missing.
\<close>

definition ChangedSuppliersStream_get_child_context ::
  "item \<Rightarrow> sync_context option \<Rightarrow> error + sync_context" where
  "ChangedSuppliersStream_get_child_context rec context =
     (case rec ''ClientCode'' of
        None \<Rightarrow> Inl (KeyError ''ClientCode'')
      | Some v \<Rightarrow> Inr (dict1 ''client_code'' v))"

text \<open>
  \<^verbatim>\<open>_unique_order_numbers = set()\<close> is bound in the body of the class
  \<^verbatim>\<open>ChangedPurchasesStream\<close>. \<^verbatim>\<open>get_child_context\<close> reaches it through
  \<^verbatim>\<open>self\<close> and calls \<^verbatim>\<open>add\<close> on it; nothing in \<^verbatim>\<open>streams.py\<close> assigns the
  name on an instance or empties the set. So there is one set per process, whichever
  instance \<^verbatim>\<open>self\<close> is: the model passes it in and returns it updated.
\<close>

type_synonym dedup_set = "pyval set"

definition ChangedPurchasesStream_get_child_context ::
  "dedup_set \<Rightarrow> 'a sherpa_stream_scheme \<Rightarrow> item \<Rightarrow> sync_context option
     \<Rightarrow> sync_context option \<times> dedup_set" where
  "ChangedPurchasesStream_get_child_context unique_order_numbers self rec context =
     (let purchase_number = dict_get rec ''OrderNumber'' in
      if \<not> truthy purchase_number then (None, unique_order_numbers)
      else if purchase_number \<in> unique_order_numbers then (None, unique_order_numbers)
      else (Some (dict1 ''purchase_number'' purchase_number),
            insert purchase_number unique_order_numbers))"

text \<open>
  \<^verbatim>\<open>ChangedPurchasesStream._sync_children\<close> calls the base class's method only for a
  context that is not \<^verbatim>\<open>None\<close>. The base class's method, which runs the child
  streams, is an argument: it may change the world or fail.
\<close>

definition ChangedPurchasesStream_sync_children ::
  "(sync_context \<Rightarrow> 'w \<Rightarrow> error + 'w) \<Rightarrow> sync_context option \<Rightarrow> 'w \<Rightarrow> error + 'w" where
  "ChangedPurchasesStream_sync_children super_sync_children child_context w =
     (case child_context of
        None \<Rightarrow> Inr w
      | Some c \<Rightarrow> super_sync_children c w)"

text \<open>
  Modelled from the spec: the loop of the hosting framework that consumes a parent
  stream's records is not in \<^verbatim>\<open>streams.py\<close>. By section 4.3 of the specification
  it works one parent record at a time, in the order the records are emitted: it derives
  the record's child context and hands it to \<^verbatim>\<open>_sync_children\<close>. An exception ends
  the run; what was added to the set before stays added.
\<close>

fun ChangedPurchasesStream_sync_records ::
  "(sync_context \<Rightarrow> 'w \<Rightarrow> error + 'w) \<Rightarrow> 'a sherpa_stream_scheme \<Rightarrow> sync_context option
     \<Rightarrow> item list \<Rightarrow> dedup_set \<Rightarrow> 'w \<Rightarrow> dedup_set \<times> (error + 'w)" where
  "ChangedPurchasesStream_sync_records base self context [] seen w = (seen, Inr w)"
| "ChangedPurchasesStream_sync_records base self context (rec # recs) seen w =
     (case ChangedPurchasesStream_get_child_context seen self rec context of
        (child_context, seen') \<Rightarrow>
          (case ChangedPurchasesStream_sync_children base child_context w of
             Inl e \<Rightarrow> (seen', Inl e)
           | Inr w' \<Rightarrow> ChangedPurchasesStream_sync_records base self context recs seen' w'))"

text \<open>
  Modelled from the spec: the same loop for \<^verbatim>\<open>ChangedSuppliersStream\<close>, which does
  not override \<^verbatim>\<open>_sync_children\<close>: the base class's method gets every context.
\<close>

fun ChangedSuppliersStream_sync_records ::
  "(sync_context \<Rightarrow> 'w \<Rightarrow> error + 'w) \<Rightarrow> sync_context option \<Rightarrow> item list \<Rightarrow> 'w
     \<Rightarrow> error + 'w" where
  "ChangedSuppliersStream_sync_records base context [] w = Inr w"
| "ChangedSuppliersStream_sync_records base context (rec # recs) w =
     (case ChangedSuppliersStream_get_child_context rec context of
        Inl e \<Rightarrow> Inl e
      | Inr child_context \<Rightarrow>
          (case base child_context w of
             Inl e \<Rightarrow> Inl e
           | Inr w' \<Rightarrow> ChangedSuppliersStream_sync_records base context recs w'))"

text \<open>
  What the specification expects of a run, in its words: one child fetch for each
  distinct key, in the order the keys are first seen. \<open>dispatch\<close> runs the child
  fetches for a list of contexts, one after the other, up to the first failure.
\<close>

fun first_seen :: "'a list \<Rightarrow> 'a list" where
  "first_seen [] = []"
| "first_seen (x # xs) = x # first_seen (filter (\<lambda>y. y \<noteq> x) xs)"

fun dispatch :: "(sync_context \<Rightarrow> 'w \<Rightarrow> error + 'w) \<Rightarrow> sync_context list \<Rightarrow> 'w \<Rightarrow> error + 'w" where
  "dispatch base [] w = Inr w"
| "dispatch base (c # cs) w =
     (case base c w of
        Inl e \<Rightarrow> Inl e
      | Inr w' \<Rightarrow> dispatch base cs w')"

text \<open>A child fetch that only writes down the context it was started with.\<close>

definition log_child :: "sync_context \<Rightarrow> sync_context list \<Rightarrow> error + sync_context list" where
  "log_child c log = Inr (log @ [c])"

section \<open>The pagination engine and the bookmark\<close>

text \<open>
  \<^verbatim>\<open>name\<close> and \<^verbatim>\<open>paginate\<close> as the two child classes declare them.
\<close>

definition SupplierInfoStream_name :: string where
  "SupplierInfoStream_name = ''supplier_info''"

definition SupplierInfoStream_paginate :: bool where
  "SupplierInfoStream_paginate = False"

definition PurchaseInfoStream_name :: string where
  "PurchaseInfoStream_name = ''purchase_info''"

definition PurchaseInfoStream_paginate :: bool where
  "PurchaseInfoStream_paginate = False"

text \<open>
  The remote side, as the specification describes it: the Transport sends one envelope
  for a service and either fails or returns a response that the Response Unmarshaller
  turns into the page's items (found under the items key), the page's token, and whether
  more data follows. The remote service has a state of its own, so that it may answer
  the same envelope differently the next time. The world holds that state, the log of
  the envelopes sent, and the committed bookmark of every stream.
\<close>

record page =
  items :: "item list"
  next_token :: token
  has_more :: bool

type_synonym 's service = "'s \<Rightarrow> string \<Rightarrow> string \<Rightarrow> string \<Rightarrow> (error + page) \<times> 's"

record 's world =
  remote :: 's
  requests :: "(string \<times> string) list"
  bookmarks :: "string \<rightharpoonup> token"

text \<open>
  Modelled from the spec: the Incremental State Manager of section 4.2, which is not in
  \<^verbatim>\<open>streams.py\<close>. The start token is the committed bookmark, or the zero token when
  there is none; a commit overwrites the stream's bookmark.
\<close>

definition get_start_token :: "(string \<rightharpoonup> token) \<Rightarrow> string \<Rightarrow> token" where
  "get_start_token bm stream_name = (case bm stream_name of None \<Rightarrow> TInt 0 | Some t \<Rightarrow> t)"

definition commit_token :: "(string \<rightharpoonup> token) \<Rightarrow> string \<Rightarrow> token \<Rightarrow> (string \<rightharpoonup> token)" where
  "commit_token bm stream_name t = bm(stream_name \<mapsto> t)"

text \<open>
  Modelled from the spec: the loop of the Pagination Engine of section 4.1, which is not
  in \<^verbatim>\<open>streams.py\<close>. Each round builds the envelope for the current token, sends
  it, and yields the page's items in order. The loop ends, successfully and with the
  page's token as terminal token, when the page has fewer than \<open>page_size\<close> items,
  or no more data follows, or the page's token is the token that was sent; otherwise it
  goes on from the page's token. A failure of the builder or of the remote call ends it
  at once. The loop need not end by itself, so it is given a number of rounds.
\<close>

datatype fetch_end = Terminal token | Failure error | NoFuel

fun fetch_all ::
  "nat \<Rightarrow> 's service \<Rightarrow> (token \<Rightarrow> int \<Rightarrow> error + string) \<Rightarrow> string \<Rightarrow> string \<Rightarrow> int \<Rightarrow> token
     \<Rightarrow> item list \<Rightarrow> 's world \<Rightarrow> item list \<times> fetch_end \<times> 's world" where
  "fetch_all 0 svc build service_name items_key page_size tok acc w = (acc, NoFuel, w)"
| "fetch_all (Suc n) svc build service_name items_key page_size tok acc w =
     (case build tok page_size of
        Inl e \<Rightarrow> (acc, Failure e, w)
      | Inr envelope \<Rightarrow>
          (case svc (remote w) service_name items_key envelope of
             (Inl e, r') \<Rightarrow>
               (acc, Failure e,
                w\<lparr>remote := r', requests := requests w @ [(service_name, envelope)]\<rparr>)
           | (Inr p, r') \<Rightarrow>
               (let w' = w\<lparr>remote := r', requests := requests w @ [(service_name, envelope)]\<rparr>;
                    acc' = acc @ items p
                in if int (length (items p)) < page_size \<or> \<not> has_more p \<or> next_token p = tok
                   then (acc', Terminal (next_token p), w')
                   else fetch_all n svc build service_name items_key page_size (next_token p)
                          acc' w')))"

text \<open>
  Modelled from the spec: \<^verbatim>\<open>get_records_with_token_pagination\<close> of the base class,
  which is not in \<^verbatim>\<open>streams.py\<close>, from sections 4.1 and 4.2. It starts from the
  stream's start token. A stream that paginates runs the loop and commits the terminal
  token only when the loop has ended successfully. A stream whose \<^verbatim>\<open>paginate\<close> is
  false runs one request and response, whose page is the only one, and commits nothing.
  The stream's \<^verbatim>\<open>name\<close> and \<^verbatim>\<open>paginate\<close> are attributes of \<^verbatim>\<open>self\<close>; the
  other arguments are those of the calls in \<^verbatim>\<open>streams.py\<close>.
\<close>

definition get_records_with_token_pagination ::
  "nat \<Rightarrow> 's service \<Rightarrow> string \<Rightarrow> bool \<Rightarrow> 's world engine" where
  "get_records_with_token_pagination fuel svc stream_name paginate get_soap_envelope
       service_name items_key context page_size w =
     (let start = get_start_token (bookmarks w) stream_name in
      if paginate then
        (case fetch_all fuel svc get_soap_envelope service_name items_key page_size start [] w of
           (ys, Terminal t, w') \<Rightarrow>
             \<lparr>yielded = ys, status = Completed,
              world = w'\<lparr>bookmarks := commit_token (bookmarks w') stream_name t\<rparr>\<rparr>
         | (ys, Failure e, w') \<Rightarrow> \<lparr>yielded = ys, status = Raised e, world = w'\<rparr>
         | (ys, NoFuel, w') \<Rightarrow> \<lparr>yielded = ys, status = OutOfFuel, world = w'\<rparr>)
      else
        (case get_soap_envelope start page_size of
           Inl e \<Rightarrow> \<lparr>yielded = [], status = Raised e, world = w\<rparr>
         | Inr envelope \<Rightarrow>
             (case svc (remote w) service_name items_key envelope of
                (Inl e, r') \<Rightarrow>
                  \<lparr>yielded = [], status = Raised e,
                   world = w\<lparr>remote := r', requests := requests w @ [(service_name, envelope)]\<rparr>\<rparr>
              | (Inr p, r') \<Rightarrow>
                  \<lparr>yielded = items p, status = Completed,
                   world = w\<lparr>remote := r', requests := requests w @ [(service_name, envelope)]\<rparr>\<rparr>)))"

text \<open>
  What the remote service does at the start of a run, told apart from the engine: from
  the token \<open>tok\<close> and the remote state \<open>r\<close>, the first \<open>k\<close> requests of the
  loop are all built and all answered with a page after which the loop goes on (a full
  page that announces more data under a new token). The result is those pages, the
  envelopes sent for them, and the token and remote state reached; \<open>None\<close> when one
  of the \<open>k\<close> requests is not answered so.
\<close>

fun answered_pages ::
  "nat \<Rightarrow> 's service \<Rightarrow> (token \<Rightarrow> int \<Rightarrow> error + string) \<Rightarrow> string \<Rightarrow> string \<Rightarrow> int \<Rightarrow> token
     \<Rightarrow> 's \<Rightarrow> (page list \<times> string list \<times> token \<times> 's) option" where
  "answered_pages 0 svc build service_name items_key page_size tok r = Some ([], [], tok, r)"
| "answered_pages (Suc k) svc build service_name items_key page_size tok r =
     (case build tok page_size of
        Inl e \<Rightarrow> None
      | Inr envelope \<Rightarrow>
          (case svc r service_name items_key envelope of
             (Inl e, r') \<Rightarrow> None
           | (Inr p, r') \<Rightarrow>
               if int (length (items p)) < page_size \<or> \<not> has_more p \<or> next_token p = tok
               then None
               else (case answered_pages k svc build service_name items_key page_size
                            (next_token p) r' of
                       None \<Rightarrow> None
                     | Some (pages, envelopes, t, r'') \<Rightarrow>
                         Some (p # pages, envelope # envelopes, t, r''))))"

section \<open>Example inputs\<close>

text \<open>
  A configuration, a stream object and an empty world to run the definitions on, and a
  remote service that answers its \<open>n\<close>-th request with the \<open>n\<close>-th entry of a script
  (and fails once the script is used up).
\<close>

definition example_config :: config where
  "example_config = \<lparr>security_code = Some ''secret'', chunk_size = Some 2,
      warehouse_group_code = None\<rparr>"

definition example_stream :: sherpa_stream where
  "example_stream = \<lparr>config = example_config\<rparr>"

definition scripted :: "(error + page) list \<Rightarrow> nat service" where
  "scripted script n service_name items_key envelope =
     ((if n < length script then script ! n else Inl TransportError), Suc n)"

definition empty_world :: "nat world" where
  "empty_world = \<lparr>remote = 0, requests = [], bookmarks = Map.empty\<rparr>"

section \<open>Helper lemmas\<close>

lemma first_seen_set: "set (first_seen xs) = set xs"
proof (induction xs rule: first_seen.induct)
  case 1
  show ?case by simp
next
  case (2 x xs)
  then show ?case by auto
qed

lemma first_seen_distinct: "distinct (first_seen xs)"
proof (induction xs rule: first_seen.induct)
  case 1
  show ?case by simp
next
  case (2 x xs)
  then show ?case by (simp add: first_seen_set)
qed

lemma purchases_step_filter:
  "filter (\<lambda>y. y \<noteq> k) (filter (\<lambda>x. truthy x \<and> x \<notin> seen) ks)
     = filter (\<lambda>x. truthy x \<and> x \<notin> insert k seen) ks"
  by (induction ks) auto

lemma purchases_sync_records_dispatch:
  "snd (ChangedPurchasesStream_sync_records base self ctx recs seen w) =
     dispatch base
       (map (dict1 ''purchase_number'')
          (first_seen (filter (\<lambda>k. truthy k \<and> k \<notin> seen)
                         (map (\<lambda>r. dict_get r ''OrderNumber'') recs)))) w"
proof (induction recs arbitrary: seen w)
  case Nil
  show ?case by simp
next
  case (Cons r recs)
  let ?k = "dict_get r ''OrderNumber''"
  show ?case
  proof (cases "truthy ?k \<and> ?k \<notin> seen")
    case False
    then show ?thesis
      using Cons.IH [of seen w]
      by (auto simp: ChangedPurchasesStream_get_child_context_def
            ChangedPurchasesStream_sync_children_def Let_def)
  next
    case True
    show ?thesis
    proof (cases "base (dict1 ''purchase_number'' ?k) w")
      case (Inl e)
      with True show ?thesis
        by (simp add: ChangedPurchasesStream_get_child_context_def
              ChangedPurchasesStream_sync_children_def Let_def)
    next
      case (Inr w')
      with True show ?thesis
        using Cons.IH [of "insert ?k seen" w']
        by (simp add: ChangedPurchasesStream_get_child_context_def
              ChangedPurchasesStream_sync_children_def Let_def purchases_step_filter
              del: filter_filter)
    qed
  qed
qed

lemma purchases_sync_records_mono:
  "seen \<subseteq> fst (ChangedPurchasesStream_sync_records base self ctx recs seen w)"
proof (induction recs arbitrary: seen w)
  case Nil
  show ?case by simp
next
  case (Cons r recs)
  show ?case
    using Cons.IH [of seen] Cons.IH [of "insert (dict_get r ''OrderNumber'') seen"]
    by (auto simp: ChangedPurchasesStream_get_child_context_def Let_def
          ChangedPurchasesStream_sync_children_def split: sum.splits)
qed

lemma purchases_sync_records_upper:
  "fst (ChangedPurchasesStream_sync_records base self ctx recs seen w)
     \<subseteq> seen \<union> {k \<in> set (map (\<lambda>r. dict_get r ''OrderNumber'') recs). truthy k}"
proof (induction recs arbitrary: seen w)
  case Nil
  show ?case by simp
next
  case (Cons r recs)
  show ?case
    using Cons.IH [of seen] Cons.IH [of "insert (dict_get r ''OrderNumber'') seen"]
    by (auto simp: ChangedPurchasesStream_get_child_context_def Let_def
          ChangedPurchasesStream_sync_children_def split: sum.splits)
qed

lemma suppliers_sync_records_dispatch:
  "list_all (\<lambda>r. r ''ClientCode'' \<noteq> None) recs \<Longrightarrow>
   ChangedSuppliersStream_sync_records base ctx recs w =
     dispatch base (map (\<lambda>r. dict1 ''client_code'' (dict_get r ''ClientCode'')) recs) w"
proof (induction recs arbitrary: w)
  case Nil
  show ?case by simp
next
  case (Cons r recs)
  then show ?case
    by (auto simp: ChangedSuppliersStream_get_child_context_def dict_get_def split: sum.splits)
qed

lemma dispatch_log_child: "dispatch log_child cs l = Inr (l @ cs)"
  by (induction cs arbitrary: l) (auto simp: log_child_def)

lemma fetch_all_bookmarks:
  "bookmarks (snd (snd (fetch_all n svc build service_name items_key page_size tok acc w)))
     = bookmarks w"
proof (induction n arbitrary: tok acc w)
  case 0
  show ?case by simp
next
  case (Suc n)
  show ?case
  proof (cases "build tok page_size")
    case (Inl e)
    then show ?thesis by simp
  next
    case (Inr envelope)
    obtain res r' where call: "svc (remote w) service_name items_key envelope = (res, r')"
      by (cases "svc (remote w) service_name items_key envelope")
    show ?thesis
    proof (cases res)
      case (Inl e)
      with Inr call show ?thesis by simp
    next
      case res: (Inr p)
      show ?thesis
        using Inr call res
          Suc.IH [of "next_token p" "acc @ items p"
            "w\<lparr>remote := r', requests := requests w @ [(service_name, envelope)]\<rparr>"]
        by (simp add: Let_def)
    qed
  qed
qed

lemma fetch_all_yields_more:
  "\<exists>ys. fst (fetch_all n svc build service_name items_key page_size tok acc w) = acc @ ys"
proof (induction n arbitrary: tok acc w)
  case 0
  show ?case by simp
next
  case (Suc n)
  show ?case
  proof (cases "build tok page_size")
    case (Inl e)
    then show ?thesis by simp
  next
    case (Inr envelope)
    obtain res r' where call: "svc (remote w) service_name items_key envelope = (res, r')"
      by (cases "svc (remote w) service_name items_key envelope")
    show ?thesis
    proof (cases res)
      case (Inl e)
      with Inr call show ?thesis by simp
    next
      case res: (Inr p)
      obtain ys where
        "fst (fetch_all n svc build service_name items_key page_size (next_token p)
                (acc @ items p)
                (w\<lparr>remote := r', requests := requests w @ [(service_name, envelope)]\<rparr>))
           = (acc @ items p) @ ys"
        using Suc.IH by blast
      then show ?thesis
        using Inr call res by (simp add: Let_def)
    qed
  qed
qed

lemma failed_run_bookmarks:
  "status (get_records_with_token_pagination fuel svc stream_name paginate build service_name
             items_key context page_size w) \<noteq> Completed
   \<Longrightarrow> bookmarks (world (get_records_with_token_pagination fuel svc stream_name paginate build
                          service_name items_key context page_size w)) = bookmarks w"
proof (cases paginate)
  case False
  then show ?thesis
    by (auto simp: get_records_with_token_pagination_def Let_def
          split: sum.splits prod.splits)
next
  case True
  obtain ys e w' where run:
    "fetch_all fuel svc build service_name items_key page_size
       (get_start_token (bookmarks w) stream_name) [] w = (ys, e, w')"
    by (cases "fetch_all fuel svc build service_name items_key page_size
                 (get_start_token (bookmarks w) stream_name) [] w") auto
  have "bookmarks w' = bookmarks w"
    using fetch_all_bookmarks [of fuel svc build service_name items_key page_size
        "get_start_token (bookmarks w) stream_name" "[]" w] run
    by simp
  moreover assume "status (get_records_with_token_pagination fuel svc stream_name paginate build
      service_name items_key context page_size w) \<noteq> Completed"
  ultimately show ?thesis
    using True run
    by (cases e) (simp_all add: get_records_with_token_pagination_def Let_def)
qed

lemma fetch_all_requests:
  "\<exists>rs. requests (snd (snd (fetch_all n svc build service_name items_key page_size tok acc w)))
          = requests w @ rs"
proof (induction n arbitrary: tok acc w)
  case 0
  show ?case by simp
next
  case (Suc n)
  show ?case
  proof (cases "build tok page_size")
    case (Inl e)
    then show ?thesis by simp
  next
    case (Inr envelope)
    obtain res r' where call: "svc (remote w) service_name items_key envelope = (res, r')"
      by (cases "svc (remote w) service_name items_key envelope")
    show ?thesis
    proof (cases res)
      case (Inl e)
      with Inr call show ?thesis by simp
    next
      case res: (Inr p)
      obtain rs where
        "requests (snd (snd (fetch_all n svc build service_name items_key page_size
                   (next_token p) (acc @ items p)
                   (w\<lparr>remote := r', requests := requests w @ [(service_name, envelope)]\<rparr>))))
           = (requests w @ [(service_name, envelope)]) @ rs"
        using Suc.IH [of "next_token p" "acc @ items p"
            "w\<lparr>remote := r', requests := requests w @ [(service_name, envelope)]\<rparr>"]
        by auto
      then show ?thesis
        using Inr call res by (simp add: Let_def)
    qed
  qed
qed

lemma fetch_all_first_request:
  assumes "build tok page_size = Inr envelope"
  shows "\<exists>rs. requests (snd (snd (fetch_all (Suc n) svc build service_name items_key page_size
                                      tok acc w)))
               = requests w @ (service_name, envelope) # rs"
proof -
  obtain res r' where call: "svc (remote w) service_name items_key envelope = (res, r')"
    by (cases "svc (remote w) service_name items_key envelope")
  show ?thesis
  proof (cases res)
    case (Inl e)
    with assms call show ?thesis by simp
  next
    case res: (Inr p)
    obtain rs where
      "requests (snd (snd (fetch_all n svc build service_name items_key page_size
                 (next_token p) (acc @ items p)
                 (w\<lparr>remote := r', requests := requests w @ [(service_name, envelope)]\<rparr>))))
         = (requests w @ [(service_name, envelope)]) @ rs"
      using fetch_all_requests [of n svc build service_name items_key page_size "next_token p"
          "acc @ items p"
          "w\<lparr>remote := r', requests := requests w @ [(service_name, envelope)]\<rparr>"]
      by auto
    then show ?thesis
      using assms call res by (simp add: Let_def)
  qed
qed

lemma paginated_first_request:
  assumes "build (get_start_token (bookmarks w) stream_name) page_size = Inr envelope"
  shows "\<exists>rs. requests (world (get_records_with_token_pagination (Suc n) svc stream_name True
                                  build service_name items_key ctx page_size w))
               = requests w @ (service_name, envelope) # rs"
proof -
  obtain ys e w' where run:
    "fetch_all (Suc n) svc build service_name items_key page_size
       (get_start_token (bookmarks w) stream_name) [] w = (ys, e, w')"
    by (cases "fetch_all (Suc n) svc build service_name items_key page_size
                 (get_start_token (bookmarks w) stream_name) [] w") auto
  obtain rs where "requests w' = requests w @ (service_name, envelope) # rs"
    using fetch_all_first_request
        [where build = build and tok = "get_start_token (bookmarks w) stream_name"
           and page_size = page_size and envelope = envelope and n = n and svc = svc
           and service_name = service_name and items_key = items_key and acc = "[]"
           and w = w, OF assms]
      run
    by auto
  then show ?thesis
    using run
    by (cases e) (simp_all add: get_records_with_token_pagination_def Let_def del: fetch_all.simps)
qed

text \<open>
  The loop on Scenario A of the specification: page size 2, three pages with the tokens
  1, 2, 2; all five items are yielded in order and the bookmark is the last page's token.
\<close>

lemma pagination_scenario_a:
  "get_records_with_token_pagination 5
     (scripted [Inr \<lparr>items = [[''ItemCode'' \<mapsto> PStr ''a''], [''ItemCode'' \<mapsto> PStr ''b'']],
                     next_token = TInt 1, has_more = True\<rparr>,
                Inr \<lparr>items = [[''ItemCode'' \<mapsto> PStr ''c''], [''ItemCode'' \<mapsto> PStr ''d'']],
                     next_token = TInt 2, has_more = True\<rparr>,
                Inr \<lparr>items = [[''ItemCode'' \<mapsto> PStr ''e'']],
                     next_token = TInt 2, has_more = True\<rparr>])
     ''changed_stock'' True (ChangedStockStream_get_soap_envelope example_stream)
     ''ChangedStock'' ''ItemStockToken'' None 2 empty_world
   = \<lparr>yielded = [[''ItemCode'' \<mapsto> PStr ''a''], [''ItemCode'' \<mapsto> PStr ''b''],
                 [''ItemCode'' \<mapsto> PStr ''c''], [''ItemCode'' \<mapsto> PStr ''d''],
                 [''ItemCode'' \<mapsto> PStr ''e'']],
      status = Completed,
      world = \<lparr>remote = 3,
               requests = [(''ChangedStock'', ChangedStockStream_envelope ''secret'' ''0'' ''2''),
                           (''ChangedStock'', ChangedStockStream_envelope ''secret'' ''1'' ''2''),
                           (''ChangedStock'', ChangedStockStream_envelope ''secret'' ''2'' ''2'')],
               bookmarks = [''changed_stock'' \<mapsto> TInt 2]\<rparr>\<rparr>"
  by (simp add: get_records_with_token_pagination_def get_start_token_def commit_token_def
        empty_world_def eval_nat_numeral ChangedStockStream_get_soap_envelope_def
        example_stream_def example_config_def scripted_def Let_def
        str_int_def str_nat.simps digit_char_def)

lemma replace_char_append:
  "replace_char c r (a @ b) = replace_char c r a @ replace_char c r b"
  by (simp add: replace_char_def)

lemma html_escape_Nil: "html_escape [] = []"
  by (simp add: html_escape_def replace_char_def)

lemma html_escape_Cons: "html_escape (x # xs) = html_entity x @ html_escape xs"
proof -
  have step: "replace_char c r (x # xs) = (if x = c then r else [x]) @ replace_char c r xs"
    for c r and x :: char and xs
    by (simp add: replace_char_def)
  show ?thesis
    unfolding html_escape_def
    by (simp add: step replace_char_append html_entity_def)
      (simp add: replace_char_def)
qed

lemma html_escape_entities: "html_escape s = concat (map html_entity s)"
  by (induction s) (simp_all add: html_escape_Nil html_escape_Cons)




lemma fetch_all_after_answered_pages:
  "answered_pages k svc build service_name items_key page_size tok (remote w)
     = Some (pages, envelopes, t, r) \<Longrightarrow>
   fetch_all (k + m) svc build service_name items_key page_size tok acc w
     = fetch_all m svc build service_name items_key page_size t
         (acc @ concat (map items pages))
         (w\<lparr>remote := r, requests := requests w @ map (Pair service_name) envelopes\<rparr>)"
proof (induction k arbitrary: tok acc w pages envelopes)
  case 0
  then have "w\<lparr>remote := r\<rparr> = w" and "pages = []" and "envelopes = []" and "t = tok"
    by auto
  then show ?case by simp
next
  case (Suc k)
  from Suc.prems obtain envelope where build: "build tok page_size = Inr envelope"
    by (cases "build tok page_size") simp_all
  obtain res r' where call: "svc (remote w) service_name items_key envelope = (res, r')"
    by (cases "svc (remote w) service_name items_key envelope")
  from Suc.prems build call obtain p where res: "res = Inr p"
    by (cases res) simp_all
  from Suc.prems build call res
  have goes_on: "\<not> (int (length (items p)) < page_size \<or> \<not> has_more p \<or> next_token p = tok)"
    by (auto split: if_splits)
  let ?w' = "w\<lparr>remote := r', requests := requests w @ [(service_name, envelope)]\<rparr>"
  from Suc.prems build call res goes_on obtain pages' envelopes' where
    rest: "answered_pages k svc build service_name items_key page_size (next_token p) (remote ?w')
             = Some (pages', envelopes', t, r)"
    and pages: "pages = p # pages'" and envelopes: "envelopes = envelope # envelopes'"
    by (auto split: option.splits)
  have "fetch_all (Suc k + m) svc build service_name items_key page_size tok acc w
          = fetch_all (k + m) svc build service_name items_key page_size (next_token p)
              (acc @ items p) ?w'"
    using build call res goes_on by (simp add: Let_def)
  also have "\<dots> = fetch_all m svc build service_name items_key page_size t
                      ((acc @ items p) @ concat (map items pages'))
                      (?w'\<lparr>remote := r,
                           requests := requests ?w' @ map (Pair service_name) envelopes'\<rparr>)"
    by (rule Suc.IH [OF rest])
  finally show ?case
    by (simp add: pages envelopes)
qed

lemma answered_pages_first_envelope:
  "answered_pages k svc build service_name items_key page_size tok r
     = Some (pages, envelopes, t, r') \<Longrightarrow>
   build t page_size = Inr envelope \<Longrightarrow>
   build tok page_size = Inr (hd (envelopes @ [envelope]))"
proof (cases k)
  case 0
  assume "answered_pages k svc build service_name items_key page_size tok r
            = Some (pages, envelopes, t, r')"
    and "build t page_size = Inr envelope"
  with 0 show ?thesis by auto
next
  case (Suc j)
  assume "answered_pages k svc build service_name items_key page_size tok r
            = Some (pages, envelopes, t, r')"
  with Suc show ?thesis
    by (auto split: sum.splits prod.splits if_splits option.splits)
qed

lemma failure_after_answered_pages:
  assumes pages: "answered_pages k svc build service_name items_key page_size tok (remote w)
                    = Some (pages, envelopes, t, r)"
    and build: "build t page_size = Inr envelope"
    and call: "svc r service_name items_key envelope = (Inl e, r')"
  shows "fetch_all (k + Suc n) svc build service_name items_key page_size tok acc w
           = (acc @ concat (map items pages), Failure e,
              w\<lparr>remote := r',
                requests := requests w @ map (Pair service_name) (envelopes @ [envelope])\<rparr>)"
proof -
  let ?w' = "w\<lparr>remote := r, requests := requests w @ map (Pair service_name) envelopes\<rparr>"
  have "fetch_all (k + Suc n) svc build service_name items_key page_size tok acc w
          = fetch_all (Suc n) svc build service_name items_key page_size t
              (acc @ concat (map items pages)) ?w'"
    by (rule fetch_all_after_answered_pages [OF pages])
  also have "\<dots> = (acc @ concat (map items pages), Failure e,
                     ?w'\<lparr>remote := r', requests := requests ?w' @ [(service_name, envelope)]\<rparr>)"
    using build call by simp
  finally show ?thesis by simp
qed

section \<open>Child dispatch of the parent streams\<close>

text \<open>
  C1 (as amended). In a run of \<^verbatim>\<open>ChangedPurchasesStream\<close> that starts with the set
  \<open>seen\<close>, the child fetches are exactly those for the distinct truthy order numbers
  that are not in \<open>seen\<close>, one each, in the order they are first seen; a record whose
  order number is empty, \<^verbatim>\<open>None\<close> or missing starts none. With an empty set at the
  start that is one child fetch for each distinct non-empty order number.
  \<^verbatim>\<open>ChangedSuppliersStream\<close> neither deduplicates nor skips: when every record has a
  \<^verbatim>\<open>ClientCode\<close>, it starts one child fetch for each record, in order.
\<close>

theorem child_dispatch_of_parent_streams:
  "snd (ChangedPurchasesStream_sync_records base self ctx recs seen w) =
     dispatch base
       (map (dict1 ''purchase_number'')
          (first_seen (filter (\<lambda>k. truthy k \<and> k \<notin> seen)
                         (map (\<lambda>r. dict_get r ''OrderNumber'') recs)))) w
   \<and> (list_all (\<lambda>r. r ''ClientCode'' \<noteq> None) recs' \<longrightarrow>
        ChangedSuppliersStream_sync_records base' ctx' recs' w' =
          dispatch base'
            (map (\<lambda>r. dict1 ''client_code'' (dict_get r ''ClientCode'')) recs') w')"
  using purchases_sync_records_dispatch [of base self ctx recs seen w]
    suppliers_sync_records_dispatch [of recs' base' ctx' w']
  by simp

theorem child_dispatch_of_parent_streams_witness:
  "snd (ChangedPurchasesStream_sync_records log_child \<lparr>config = \<lparr>security_code = Some ''s'',
          chunk_size = None, warehouse_group_code = None\<rparr>\<rparr> None
        [[''OrderNumber'' \<mapsto> PStr ''K1''], [''OrderNumber'' \<mapsto> PStr ''K1''],
         [''OrderNumber'' \<mapsto> PStr ''''], [''PurchaseCode'' \<mapsto> PStr ''P4''],
         [''OrderNumber'' \<mapsto> PStr ''K2'']] {} [])
     = Inr [dict1 ''purchase_number'' (PStr ''K1''), dict1 ''purchase_number'' (PStr ''K2'')]
   \<and> list_all (\<lambda>r. r ''ClientCode'' \<noteq> None)
        [[''ClientCode'' \<mapsto> PStr ''A''], [''ClientCode'' \<mapsto> PStr ''B'']]
   \<and> ChangedSuppliersStream_sync_records log_child None
        [[''ClientCode'' \<mapsto> PStr ''A''], [''ClientCode'' \<mapsto> PStr ''B'']] []
     = Inr [dict1 ''client_code'' (PStr ''A''), dict1 ''client_code'' (PStr ''B'')]"
  using child_dispatch_of_parent_streams [of log_child
      "\<lparr>config = \<lparr>security_code = Some ''s'', chunk_size = None, warehouse_group_code = None\<rparr>\<rparr>"
      None
      "[[''OrderNumber'' \<mapsto> PStr ''K1''], [''OrderNumber'' \<mapsto> PStr ''K1''],
        [''OrderNumber'' \<mapsto> PStr ''''], [''PurchaseCode'' \<mapsto> PStr ''P4''],
        [''OrderNumber'' \<mapsto> PStr ''K2'']]"
      "{}" "[]"
      "[[''ClientCode'' \<mapsto> PStr ''A''], [''ClientCode'' \<mapsto> PStr ''B'']]"
      log_child None "[]"]
  by (simp add: dict_get_def log_child_def)

text \<open>
  The claim as stated fails for \<^verbatim>\<open>ChangedSuppliersStream\<close>: records with the keys
  K1, K1, K2 start three child fetches, not the two (K1, then K2) that one fetch for each
  distinct key would give, and a record with an empty key starts a child fetch.
\<close>

theorem suppliers_child_dispatch_counterexample:
  "ChangedSuppliersStream_sync_records log_child None
      [[''ClientCode'' \<mapsto> PStr ''K1''], [''ClientCode'' \<mapsto> PStr ''K1''],
       [''ClientCode'' \<mapsto> PStr ''K2'']] []
     = Inr [dict1 ''client_code'' (PStr ''K1''), dict1 ''client_code'' (PStr ''K1''),
            dict1 ''client_code'' (PStr ''K2'')]
   \<and> ChangedSuppliersStream_sync_records log_child None
        [[''ClientCode'' \<mapsto> PStr ''K1''], [''ClientCode'' \<mapsto> PStr ''K1''],
         [''ClientCode'' \<mapsto> PStr ''K2'']] []
     \<noteq> dispatch log_child
         (map (dict1 ''client_code'')
            (first_seen (filter truthy [PStr ''K1'', PStr ''K1'', PStr ''K2'']))) []
   \<and> ChangedSuppliersStream_sync_records log_child None [[''ClientCode'' \<mapsto> PStr '''']] []
     = Inr [dict1 ''client_code'' (PStr '''')]"
  by (simp add: ChangedSuppliersStream_get_child_context_def log_child_def)

section \<open>The set of order numbers already seen\<close>

text \<open>
  C2 (as amended). The set of seen order numbers is one set of the class
  \<^verbatim>\<open>ChangedPurchasesStream\<close>: \<^verbatim>\<open>get_child_context\<close> does the same on it whichever
  instance calls it, and nothing empties it between runs in a process. It only grows:
  a call keeps every key and adds at most the record's order number, and a run ends with
  every key it started with, and with no key added but truthy order numbers of its records.
\<close>

theorem dedup_set_grows_and_is_shared:
  "ChangedPurchasesStream_get_child_context seen a rec ctx
     = ChangedPurchasesStream_get_child_context seen b rec ctx'
   \<and> seen \<subseteq> snd (ChangedPurchasesStream_get_child_context seen a rec ctx)
   \<and> snd (ChangedPurchasesStream_get_child_context seen a rec ctx)
       \<subseteq> insert (dict_get rec ''OrderNumber'') seen
   \<and> seen \<subseteq> fst (ChangedPurchasesStream_sync_records base a ctx recs seen w)
   \<and> fst (ChangedPurchasesStream_sync_records base a ctx recs seen w)
       \<subseteq> seen \<union> {k \<in> set (map (\<lambda>r. dict_get r ''OrderNumber'') recs). truthy k}"
  using purchases_sync_records_mono [of seen base a ctx recs w]
    purchases_sync_records_upper [of base a ctx recs seen w]
  by (simp add: ChangedPurchasesStream_get_child_context_def Let_def subset_insertI)

theorem dedup_set_grows_and_is_shared_witness:
  "{PStr ''K0''} \<subseteq> fst (ChangedPurchasesStream_sync_records log_child \<lparr>config = \<lparr>security_code = Some ''s'',
          chunk_size = None, warehouse_group_code = None\<rparr>\<rparr> None
        [[''OrderNumber'' \<mapsto> PStr ''K1''], [''OrderNumber'' \<mapsto> PStr '''']] {PStr ''K0''} [])
   \<and> fst (ChangedPurchasesStream_sync_records log_child \<lparr>config = \<lparr>security_code = Some ''s'',
          chunk_size = None, warehouse_group_code = None\<rparr>\<rparr> None
        [[''OrderNumber'' \<mapsto> PStr ''K1''], [''OrderNumber'' \<mapsto> PStr '''']] {PStr ''K0''} [])
      = {PStr ''K0'', PStr ''K1''}"
  using dedup_set_grows_and_is_shared [of "{PStr ''K0''}"
      "\<lparr>config = \<lparr>security_code = Some ''s'', chunk_size = None, warehouse_group_code = None\<rparr>\<rparr>"
      "[''OrderNumber'' \<mapsto> PStr ''K1'']" None
      "\<lparr>config = \<lparr>security_code = Some ''s'', chunk_size = None, warehouse_group_code = None\<rparr>\<rparr>"
      None log_child
      "[[''OrderNumber'' \<mapsto> PStr ''K1''], [''OrderNumber'' \<mapsto> PStr '''']]" "[]"]
  by (auto simp: ChangedPurchasesStream_get_child_context_def Let_def dict_get_def
        ChangedPurchasesStream_sync_children_def log_child_def)

text \<open>
  The claim as stated fails: two stream instances share the set. After a run of one
  instance over a record with order number K1, a run of another instance over the same
  record starts no child fetch, although on a set of its own it would start one.
\<close>

theorem dedup_set_shared_counterexample:
  "fst (ChangedPurchasesStream_sync_records log_child
          \<lparr>config = \<lparr>security_code = Some ''a'', chunk_size = None, warehouse_group_code = None\<rparr>\<rparr>
          None [[''OrderNumber'' \<mapsto> PStr ''K1'']] {} [])
     = {PStr ''K1''}
   \<and> snd (ChangedPurchasesStream_sync_records log_child
          \<lparr>config = \<lparr>security_code = Some ''b'', chunk_size = None, warehouse_group_code = None\<rparr>\<rparr>
          None [[''OrderNumber'' \<mapsto> PStr ''K1'']]
          (fst (ChangedPurchasesStream_sync_records log_child
                  \<lparr>config = \<lparr>security_code = Some ''a'', chunk_size = None,
                     warehouse_group_code = None\<rparr>\<rparr>
                  None [[''OrderNumber'' \<mapsto> PStr ''K1'']] {} [])) [])
     = Inr []
   \<and> snd (ChangedPurchasesStream_sync_records log_child
          \<lparr>config = \<lparr>security_code = Some ''b'', chunk_size = None, warehouse_group_code = None\<rparr>\<rparr>
          None [[''OrderNumber'' \<mapsto> PStr ''K1'']] {} [])
     = Inr [dict1 ''purchase_number'' (PStr ''K1'')]"
  by (simp add: ChangedPurchasesStream_get_child_context_def Let_def dict_get_def
        ChangedPurchasesStream_sync_children_def log_child_def)

section \<open>The pagination loop\<close>

text \<open>
  C3. Whatever the loop has yielded and sent so far, when the page answered for the
  current token carries that same token, the loop ends with this page: it has sent this
  one request and no other, it has yielded the page's items, and it ends successfully
  with the token as terminal token, however many items the page has, whether or not more
  data is announced, and however many rounds would still be allowed. A paginating stream
  whose first page makes no progress therefore completes, after one request.
\<close>

theorem no_progress_page_ends_the_run:
  assumes "build tok page_size = Inr envelope"
    and "svc (remote w) service_name items_key envelope = (Inr p, r')"
    and "next_token p = tok"
  shows "fetch_all (Suc n) svc build service_name items_key page_size tok acc w
           = (acc @ items p, Terminal tok,
              w\<lparr>remote := r', requests := requests w @ [(service_name, envelope)]\<rparr>)
    \<and> (get_start_token (bookmarks w) stream_name = tok \<longrightarrow>
         get_records_with_token_pagination (Suc n) svc stream_name True build service_name
           items_key ctx page_size w
           = \<lparr>yielded = items p, status = Completed,
              world = w\<lparr>remote := r', requests := requests w @ [(service_name, envelope)],
                        bookmarks := commit_token (bookmarks w) stream_name tok\<rparr>\<rparr>)"
  using assms by (simp add: get_records_with_token_pagination_def Let_def)

theorem no_progress_page_ends_the_run_witness:
  "ChangedStockStream_get_soap_envelope example_stream (TInt 0) 2
     = Inr (ChangedStockStream_envelope ''secret'' ''0'' ''2'')
   \<and> scripted [Inr \<lparr>items = [[''ItemCode'' \<mapsto> PStr ''a''], [''ItemCode'' \<mapsto> PStr ''b'']],
                     next_token = TInt 0, has_more = True\<rparr>]
        (remote empty_world) ''ChangedStock'' ''ItemStockToken''
        (ChangedStockStream_envelope ''secret'' ''0'' ''2'')
     = (Inr \<lparr>items = [[''ItemCode'' \<mapsto> PStr ''a''], [''ItemCode'' \<mapsto> PStr ''b'']],
              next_token = TInt 0, has_more = True\<rparr>, 1)
   \<and> get_records_with_token_pagination (Suc 5)
        (scripted [Inr \<lparr>items = [[''ItemCode'' \<mapsto> PStr ''a''], [''ItemCode'' \<mapsto> PStr ''b'']],
                        next_token = TInt 0, has_more = True\<rparr>])
        ''changed_stock'' True (ChangedStockStream_get_soap_envelope example_stream)
        ''ChangedStock'' ''ItemStockToken'' None 2 empty_world
     = \<lparr>yielded = [[''ItemCode'' \<mapsto> PStr ''a''], [''ItemCode'' \<mapsto> PStr ''b'']],
        status = Completed,
        world = \<lparr>remote = 1,
                 requests = [(''ChangedStock'', ChangedStockStream_envelope ''secret'' ''0'' ''2'')],
                 bookmarks = [''changed_stock'' \<mapsto> TInt 0]\<rparr>\<rparr>"
proof -
  let ?pg = "\<lparr>items = [[''ItemCode'' \<mapsto> PStr ''a''], [''ItemCode'' \<mapsto> PStr ''b'']],
              next_token = TInt 0, has_more = True\<rparr>"
  let ?env = "ChangedStockStream_envelope ''secret'' ''0'' ''2''"
  have build: "ChangedStockStream_get_soap_envelope example_stream (TInt 0) 2 = Inr ?env"
    by (simp add: ChangedStockStream_get_soap_envelope_def example_stream_def
          example_config_def str_int_def str_nat.simps digit_char_def)
  have call: "scripted [Inr ?pg] (remote empty_world) ''ChangedStock'' ''ItemStockToken'' ?env
     = (Inr ?pg, 1)"
    by (simp add: scripted_def empty_world_def)
  have same: "next_token ?pg = TInt 0"
    by simp
  have start: "get_start_token (bookmarks empty_world) ''changed_stock'' = TInt 0"
    by (simp add: get_start_token_def empty_world_def)
  show ?thesis
    using no_progress_page_ends_the_run
        [where build = "ChangedStockStream_get_soap_envelope example_stream"
           and tok = "TInt 0" and page_size = 2 and w = empty_world and n = 5
           and acc = "[]" and stream_name = "''changed_stock''" and ctx = None
           and svc = "scripted [Inr ?pg]" and service_name = "''ChangedStock''"
           and items_key = "''ItemStockToken''" and envelope = ?env and p = ?pg and r' = 1,
         OF build call same]
      build call start
    by (simp add: empty_world_def commit_token_def)
qed

section \<open>Records without an order number\<close>

text \<open>
  C4. Of the records that the pagination yields for \<^verbatim>\<open>ChangedPurchasesStream\<close>,
  \<^verbatim>\<open>get_records\<close> passes on exactly those whose \<^verbatim>\<open>OrderNumber\<close> is there and is
  a non-empty string, in the order they came; the others are dropped, so the loop that
  derives child contexts never sees them. Nothing else of the run is changed.
\<close>

theorem purchases_emitted_iff_order_number:
  "(rec \<in> set (yielded (ChangedPurchasesStream_get_records engine self ctx w))
      \<longleftrightarrow> rec \<in> set (yielded (engine (ChangedPurchasesStream_get_soap_envelope self)
                                ''ChangedPurchases'' ''PurchaseCodeToken'' ctx
                                (page_size_of (config self)) w))
           \<and> (\<exists>s. rec ''OrderNumber'' = Some (PStr s) \<and> s \<noteq> ''''))
   \<and> yielded (ChangedPurchasesStream_get_records engine self ctx w)
       = filter (\<lambda>r. \<exists>s. r ''OrderNumber'' = Some (PStr s) \<and> s \<noteq> '''')
           (yielded (engine (ChangedPurchasesStream_get_soap_envelope self)
                       ''ChangedPurchases'' ''PurchaseCodeToken'' ctx
                       (page_size_of (config self)) w))
   \<and> status (ChangedPurchasesStream_get_records engine self ctx w)
       = status (engine (ChangedPurchasesStream_get_soap_envelope self)
                   ''ChangedPurchases'' ''PurchaseCodeToken'' ctx (page_size_of (config self)) w)
   \<and> world (ChangedPurchasesStream_get_records engine self ctx w)
       = world (engine (ChangedPurchasesStream_get_soap_envelope self)
                  ''ChangedPurchases'' ''PurchaseCodeToken'' ctx (page_size_of (config self)) w)"
proof -
  have key: "truthy (dict_get r ''OrderNumber'')
               \<longleftrightarrow> (\<exists>s. r ''OrderNumber'' = Some (PStr s) \<and> s \<noteq> '''')" for r :: item
  proof (cases "r ''OrderNumber''")
    case None
    then show ?thesis by (simp add: dict_get_def)
  next
    case (Some v)
    then show ?thesis by (cases v) (simp_all add: dict_get_def)
  qed
  show ?thesis
    by (simp add: ChangedPurchasesStream_get_records_def Let_def key)
qed

theorem purchases_emitted_iff_order_number_witness:
  "yielded (ChangedPurchasesStream_get_records
              (get_records_with_token_pagination 3
                 (scripted [Inr \<lparr>items = [[''PurchaseCode'' \<mapsto> PStr ''P1'',
                                            ''OrderNumber'' \<mapsto> PStr ''K1''],
                                           [''PurchaseCode'' \<mapsto> PStr ''P2'',
                                            ''OrderNumber'' \<mapsto> PStr ''''],
                                           [''PurchaseCode'' \<mapsto> PStr ''P3'',
                                            ''OrderNumber'' \<mapsto> PNone],
                                           [''PurchaseCode'' \<mapsto> PStr ''P4'']],
                                 next_token = TInt 9, has_more = False\<rparr>])
                 ''changed_purchases'' True)
              example_stream None empty_world)
     = [[''PurchaseCode'' \<mapsto> PStr ''P1'', ''OrderNumber'' \<mapsto> PStr ''K1'']]"
proof -
  let ?pg = "\<lparr>items = [[''PurchaseCode'' \<mapsto> PStr ''P1'', ''OrderNumber'' \<mapsto> PStr ''K1''],
                        [''PurchaseCode'' \<mapsto> PStr ''P2'', ''OrderNumber'' \<mapsto> PStr ''''],
                        [''PurchaseCode'' \<mapsto> PStr ''P3'', ''OrderNumber'' \<mapsto> PNone],
                        [''PurchaseCode'' \<mapsto> PStr ''P4'']],
              next_token = TInt 9, has_more = False\<rparr>"
  have run: "yielded (get_records_with_token_pagination 3 (scripted [Inr ?pg])
                ''changed_purchases'' True (ChangedPurchasesStream_get_soap_envelope example_stream)
                ''ChangedPurchases'' ''PurchaseCodeToken'' None
                (page_size_of (config example_stream)) empty_world) = items ?pg"
    by (simp add: get_records_with_token_pagination_def get_start_token_def empty_world_def
          numeral_3_eq_3 ChangedPurchasesStream_get_soap_envelope_def example_stream_def
          example_config_def scripted_def Let_def)
  show ?thesis
    using purchases_emitted_iff_order_number
      [where engine = "get_records_with_token_pagination 3 (scripted [Inr ?pg])
                         ''changed_purchases'' True"
         and self = example_stream and ctx = None and w = empty_world]
    by (simp add: run)
qed

section \<open>A record without a child context\<close>

text \<open>
  C5. \<^verbatim>\<open>_sync_children\<close> of \<^verbatim>\<open>ChangedPurchasesStream\<close> does nothing for the context
  \<^verbatim>\<open>None\<close>: it does not call the base class's method, it leaves the world as it is and
  it raises nothing. \<^verbatim>\<open>get_child_context\<close> gives \<^verbatim>\<open>None\<close>, and leaves the set as it
  is, exactly when the record's order number is empty, \<^verbatim>\<open>None\<close> or missing, or is in the
  set already; handling such a record changes neither the world nor the set.
\<close>

theorem no_child_sync_without_context:
  "ChangedPurchasesStream_sync_children base None w = Inr w
   \<and> (fst (ChangedPurchasesStream_get_child_context seen self rec ctx) = None
        \<longleftrightarrow> \<not> truthy (dict_get rec ''OrderNumber'') \<or> dict_get rec ''OrderNumber'' \<in> seen)
   \<and> (fst (ChangedPurchasesStream_get_child_context seen self rec ctx) = None \<longrightarrow>
        ChangedPurchasesStream_get_child_context seen self rec ctx = (None, seen)
        \<and> ChangedPurchasesStream_sync_records base self ctx [rec] seen w = (seen, Inr w))"
  by (simp add: ChangedPurchasesStream_sync_children_def
        ChangedPurchasesStream_get_child_context_def Let_def)

theorem no_child_sync_without_context_witness:
  "fst (ChangedPurchasesStream_get_child_context {PStr ''K1''} example_stream
          [''OrderNumber'' \<mapsto> PStr ''K1''] None) = None
   \<and> ChangedPurchasesStream_sync_records (\<lambda>c w. Inl TransportError) example_stream None
        [[''OrderNumber'' \<mapsto> PStr ''K1'']] {PStr ''K1''} empty_world
     = ({PStr ''K1''}, Inr empty_world)
   \<and> ChangedPurchasesStream_sync_records (\<lambda>c w. Inl TransportError) example_stream None
        [[''OrderNumber'' \<mapsto> PStr ''K2'']] {PStr ''K1''} empty_world
     = ({PStr ''K1'', PStr ''K2''}, Inl TransportError)"
proof -
  have none: "fst (ChangedPurchasesStream_get_child_context {PStr ''K1''} example_stream
          [''OrderNumber'' \<mapsto> PStr ''K1''] None) = None"
    by (simp add: ChangedPurchasesStream_get_child_context_def dict_get_def)
  have other: "ChangedPurchasesStream_sync_records (\<lambda>c w. Inl TransportError) example_stream None
        [[''OrderNumber'' \<mapsto> PStr ''K2'']] {PStr ''K1''} empty_world
     = ({PStr ''K1'', PStr ''K2''}, Inl TransportError)"
    by (auto simp: ChangedPurchasesStream_get_child_context_def dict_get_def Let_def
          ChangedPurchasesStream_sync_children_def)
  show ?thesis
    using no_child_sync_without_context
      [where base = "\<lambda>c w. Inl TransportError" and seen = "{PStr ''K1''}"
         and self = example_stream and rec = "[''OrderNumber'' \<mapsto> PStr ''K1'']"
         and ctx = None and w = empty_world]
      none other
    by simp
qed

section \<open>The bookmark of a failed run\<close>

text \<open>
  C6. A failure of the remote call at any request of a paginating run ends the run with
  that failure and with every bookmark as it was before the run: when the first \<open>k\<close>
  requests are answered with pages after which the loop goes on, and the next request
  fails, the run (given more than \<open>k\<close> rounds) has yielded the items of those \<open>k\<close>
  pages, has sent the \<open>k\<close> requests and the failed one, raises the failure, and has
  committed nothing. A run started in the world it leaves behind starts from the same
  token and sends the first request again. More generally, no run that does not complete
  changes a bookmark.
\<close>

theorem failed_run_keeps_the_bookmark:
  "(status (get_records_with_token_pagination fuel svc stream_name paginate build service_name
              items_key ctx page_size w) \<noteq> Completed \<longrightarrow>
      bookmarks (world (get_records_with_token_pagination fuel svc stream_name paginate build
                          service_name items_key ctx page_size w)) = bookmarks w)
   \<and> (answered_pages k svc build service_name items_key page_size
          (get_start_token (bookmarks w) stream_name) (remote w) = Some (pages, envelopes, t, r)
        \<and> build t page_size = Inr envelope
        \<and> svc r service_name items_key envelope = (Inl e, r') \<longrightarrow>
      get_records_with_token_pagination (k + Suc n) svc stream_name True build service_name
          items_key ctx page_size w
        = \<lparr>yielded = concat (map items pages), status = Raised e,
           world = w\<lparr>remote := r',
                     requests := requests w
                                   @ map (Pair service_name) (envelopes @ [envelope])\<rparr>\<rparr>
      \<and> bookmarks (world (get_records_with_token_pagination (k + Suc n) svc stream_name True
                            build service_name items_key ctx page_size w)) = bookmarks w
      \<and> (\<exists>rs. requests (world (get_records_with_token_pagination (Suc m) svc stream_name True
                   build service_name items_key ctx page_size
                   (w\<lparr>remote := r',
                      requests := requests w
                                    @ map (Pair service_name) (envelopes @ [envelope])\<rparr>)))
             = (requests w @ map (Pair service_name) (envelopes @ [envelope]))
                 @ (service_name, hd (envelopes @ [envelope])) # rs))"
proof (intro conjI impI)
  assume "status (get_records_with_token_pagination fuel svc stream_name paginate build
             service_name items_key ctx page_size w) \<noteq> Completed"
  then show "bookmarks (world (get_records_with_token_pagination fuel svc stream_name paginate
                build service_name items_key ctx page_size w)) = bookmarks w"
    by (rule failed_run_bookmarks)
next
  assume scenario: "answered_pages k svc build service_name items_key page_size
          (get_start_token (bookmarks w) stream_name) (remote w) = Some (pages, envelopes, t, r)
        \<and> build t page_size = Inr envelope
        \<and> svc r service_name items_key envelope = (Inl e, r')"
  let ?w' = "w\<lparr>remote := r',
                requests := requests w @ map (Pair service_name) (envelopes @ [envelope])\<rparr>"
  have loop: "fetch_all (k + Suc n) svc build service_name items_key page_size
                (get_start_token (bookmarks w) stream_name) [] w
              = ([] @ concat (map items pages), Failure e, ?w')"
  proof -
    from scenario have
      a: "answered_pages k svc build service_name items_key page_size
            (get_start_token (bookmarks w) stream_name) (remote w)
          = Some (pages, envelopes, t, r)"
      and b: "build t page_size = Inr envelope"
      and c: "svc r service_name items_key envelope = (Inl e, r')"
      by simp_all
    show ?thesis
      using failure_after_answered_pages
        [where k = k and svc = svc and build = build and service_name = service_name
           and items_key = items_key and page_size = page_size
           and tok = "get_start_token (bookmarks w) stream_name" and w = w and pages = pages
           and envelopes = envelopes and t = t and r = r and envelope = envelope and e = e
           and r' = r' and n = n and acc = "[]", OF a b c]
      by simp
  qed
  show run: "get_records_with_token_pagination (k + Suc n) svc stream_name True build
          service_name items_key ctx page_size w
        = \<lparr>yielded = concat (map items pages), status = Raised e, world = ?w'\<rparr>"
    unfolding get_records_with_token_pagination_def Let_def
    by (simp only: loop if_True prod.case fetch_end.case append_Nil)
  show "bookmarks (world (get_records_with_token_pagination (k + Suc n) svc stream_name True
                            build service_name items_key ctx page_size w)) = bookmarks w"
    by (simp only: run) simp
  have "build (get_start_token (bookmarks ?w') stream_name) page_size
          = Inr (hd (envelopes @ [envelope]))"
    using scenario
      answered_pages_first_envelope [of k svc build service_name items_key page_size
        "get_start_token (bookmarks w) stream_name" "remote w" pages envelopes t r envelope]
    by simp
  from paginated_first_request
      [where build = build and w = ?w' and stream_name = stream_name
         and page_size = page_size and envelope = "hd (envelopes @ [envelope])" and n = m
         and svc = svc and service_name = service_name and items_key = items_key
         and ctx = ctx, OF this]
  show "\<exists>rs. requests (world (get_records_with_token_pagination (Suc m) svc stream_name True
                   build service_name items_key ctx page_size ?w'))
             = (requests w @ map (Pair service_name) (envelopes @ [envelope]))
                 @ (service_name, hd (envelopes @ [envelope])) # rs"
    by simp
qed

theorem failed_run_keeps_the_bookmark_witness:
  "answered_pages 2
       (scripted [Inr \<lparr>items = [[''ItemCode'' \<mapsto> PStr ''a''], [''ItemCode'' \<mapsto> PStr ''b'']],
                       next_token = TInt 7, has_more = True\<rparr>,
                  Inr \<lparr>items = [[''ItemCode'' \<mapsto> PStr ''c''], [''ItemCode'' \<mapsto> PStr ''d'']],
                       next_token = TInt 9, has_more = True\<rparr>,
                  Inl TransportError])
       (ChangedStockStream_get_soap_envelope example_stream) ''ChangedStock'' ''ItemStockToken'' 2
       (get_start_token (bookmarks empty_world) ''changed_stock'') (remote empty_world)
     = Some ([\<lparr>items = [[''ItemCode'' \<mapsto> PStr ''a''], [''ItemCode'' \<mapsto> PStr ''b'']],
               next_token = TInt 7, has_more = True\<rparr>,
              \<lparr>items = [[''ItemCode'' \<mapsto> PStr ''c''], [''ItemCode'' \<mapsto> PStr ''d'']],
               next_token = TInt 9, has_more = True\<rparr>],
             [ChangedStockStream_envelope ''secret'' ''0'' ''2'',
              ChangedStockStream_envelope ''secret'' ''7'' ''2''],
             TInt 9, 2)
   \<and> ChangedStockStream_get_soap_envelope example_stream (TInt 9) 2
     = Inr (ChangedStockStream_envelope ''secret'' ''9'' ''2'')
   \<and> scripted [Inr \<lparr>items = [[''ItemCode'' \<mapsto> PStr ''a''], [''ItemCode'' \<mapsto> PStr ''b'']],
                     next_token = TInt 7, has_more = True\<rparr>,
                Inr \<lparr>items = [[''ItemCode'' \<mapsto> PStr ''c''], [''ItemCode'' \<mapsto> PStr ''d'']],
                     next_token = TInt 9, has_more = True\<rparr>,
                Inl TransportError]
        2 ''ChangedStock'' ''ItemStockToken'' (ChangedStockStream_envelope ''secret'' ''9'' ''2'')
     = (Inl TransportError, 3)
   \<and> get_records_with_token_pagination (2 + Suc 3)
        (scripted [Inr \<lparr>items = [[''ItemCode'' \<mapsto> PStr ''a''], [''ItemCode'' \<mapsto> PStr ''b'']],
                        next_token = TInt 7, has_more = True\<rparr>,
                   Inr \<lparr>items = [[''ItemCode'' \<mapsto> PStr ''c''], [''ItemCode'' \<mapsto> PStr ''d'']],
                        next_token = TInt 9, has_more = True\<rparr>,
                   Inl TransportError])
        ''changed_stock'' True (ChangedStockStream_get_soap_envelope example_stream)
        ''ChangedStock'' ''ItemStockToken'' None 2 empty_world
     = \<lparr>yielded = [[''ItemCode'' \<mapsto> PStr ''a''], [''ItemCode'' \<mapsto> PStr ''b''],
                   [''ItemCode'' \<mapsto> PStr ''c''], [''ItemCode'' \<mapsto> PStr ''d'']],
        status = Raised TransportError,
        world = \<lparr>remote = 3,
                 requests = [(''ChangedStock'', ChangedStockStream_envelope ''secret'' ''0'' ''2''),
                             (''ChangedStock'', ChangedStockStream_envelope ''secret'' ''7'' ''2''),
                             (''ChangedStock'', ChangedStockStream_envelope ''secret'' ''9'' ''2'')],
                 bookmarks = Map.empty\<rparr>\<rparr>"
proof -
  let ?pa = "\<lparr>items = [[''ItemCode'' \<mapsto> PStr ''a''], [''ItemCode'' \<mapsto> PStr ''b'']],
              next_token = TInt 7, has_more = True\<rparr>"
  let ?pb = "\<lparr>items = [[''ItemCode'' \<mapsto> PStr ''c''], [''ItemCode'' \<mapsto> PStr ''d'']],
              next_token = TInt 9, has_more = True\<rparr>"
  let ?svc = "scripted [Inr ?pa, Inr ?pb, Inl TransportError]"
  let ?build = "ChangedStockStream_get_soap_envelope example_stream"
  let ?ea = "ChangedStockStream_envelope ''secret'' ''0'' ''2''"
  let ?eb = "ChangedStockStream_envelope ''secret'' ''7'' ''2''"
  let ?ec = "ChangedStockStream_envelope ''secret'' ''9'' ''2''"
  have build: "?build (TInt 0) 2 = Inr ?ea" "?build (TInt 7) 2 = Inr ?eb"
    "?build (TInt 9) 2 = Inr ?ec"
    by (simp_all add: ChangedStockStream_get_soap_envelope_def example_stream_def
          example_config_def str_int_def str_nat.simps digit_char_def)
  have pages: "answered_pages 2 ?svc ?build ''ChangedStock'' ''ItemStockToken'' 2
       (get_start_token (bookmarks empty_world) ''changed_stock'') (remote empty_world)
     = Some ([?pa, ?pb], [?ea, ?eb], TInt 9, 2)"
    by (simp add: eval_nat_numeral get_start_token_def empty_world_def build scripted_def)
  have call: "?svc 2 ''ChangedStock'' ''ItemStockToken'' ?ec = (Inl TransportError, 3)"
    by (simp add: scripted_def)
  show ?thesis
    using failed_run_keeps_the_bookmark
        [where build = ?build and w = empty_world and stream_name = "''changed_stock''"
           and page_size = 2 and k = 2 and pages = "[?pa, ?pb]" and envelopes = "[?ea, ?eb]"
           and t = "TInt 9" and r = 2 and envelope = ?ec and svc = ?svc
           and service_name = "''ChangedStock''" and items_key = "''ItemStockToken''"
           and e = TransportError and r' = 3 and n = 3 and ctx = None]
      pages build(3) call
    by (simp add: empty_world_def)
qed

section \<open>The child streams read one page\<close>

text \<open>
  C7. \<^verbatim>\<open>SupplierInfoStream\<close> and \<^verbatim>\<open>PurchaseInfoStream\<close> declare
  \<^verbatim>\<open>paginate = False\<close>. With the security code configured and the parent's key in
  the context, one call of \<^verbatim>\<open>get_records\<close> builds one envelope and sends exactly
  that one request; what it yields is the page answered to it (nothing when the request
  fails), and no bookmark changes.
\<close>

theorem non_paginated_streams_send_one_request:
  "(security_code (config s) = Some code \<and> c ''client_code'' = Some (PStr k) \<longrightarrow>
      (let r = snd (SupplierInfoStream_get_records
                      (get_records_with_token_pagination fuel svc SupplierInfoStream_name
                         SupplierInfoStream_paginate) s (Some c) w);
           envelope = SupplierInfoStream_envelope code (html_escape k);
           answer = svc (remote w) ''SupplierInfo'' ''ResponseValue'' envelope
       in requests (world r) = requests w @ [(''SupplierInfo'', envelope)]
          \<and> remote (world r) = snd answer
          \<and> bookmarks (world r) = bookmarks w
          \<and> yielded r = (case fst answer of Inl e \<Rightarrow> [] | Inr p \<Rightarrow> items p)
          \<and> status r = (case fst answer of Inl e \<Rightarrow> Raised e | Inr p \<Rightarrow> Completed)))
   \<and> (security_code (config t) = Some code' \<and> c' ''purchase_number'' = Some v \<longrightarrow>
      (let r = snd (PurchaseInfoStream_get_records
                      (get_records_with_token_pagination fuel svc PurchaseInfoStream_name
                         PurchaseInfoStream_paginate) t (Some c') w);
           envelope = PurchaseInfoStream_envelope code' (str_pyval v);
           answer = svc (remote w) ''PurchaseInfo'' ''ResponseValue'' envelope
       in requests (world r) = requests w @ [(''PurchaseInfo'', envelope)]
          \<and> remote (world r) = snd answer
          \<and> bookmarks (world r) = bookmarks w
          \<and> yielded r = (case fst answer of Inl e \<Rightarrow> [] | Inr p \<Rightarrow> items p)
          \<and> status r = (case fst answer of Inl e \<Rightarrow> Raised e | Inr p \<Rightarrow> Completed)))"
proof (intro conjI impI)
  assume a: "security_code (config s) = Some code \<and> c ''client_code'' = Some (PStr k)"
  obtain res r' where call:
    "svc (remote w) ''SupplierInfo'' ''ResponseValue''
       (SupplierInfoStream_envelope code (html_escape k)) = (res, r')"
    by (cases "svc (remote w) ''SupplierInfo'' ''ResponseValue''
                 (SupplierInfoStream_envelope code (html_escape k))")
  show "let r = snd (SupplierInfoStream_get_records
                      (get_records_with_token_pagination fuel svc SupplierInfoStream_name
                         SupplierInfoStream_paginate) s (Some c) w);
           envelope = SupplierInfoStream_envelope code (html_escape k);
           answer = svc (remote w) ''SupplierInfo'' ''ResponseValue'' envelope
       in requests (world r) = requests w @ [(''SupplierInfo'', envelope)]
          \<and> remote (world r) = snd answer
          \<and> bookmarks (world r) = bookmarks w
          \<and> yielded r = (case fst answer of Inl e \<Rightarrow> [] | Inr p \<Rightarrow> items p)
          \<and> status r = (case fst answer of Inl e \<Rightarrow> Raised e | Inr p \<Rightarrow> Completed)"
    using a call
    by (cases res)
      (simp_all add: SupplierInfoStream_get_records_def SupplierInfoStream_paginate_def
         get_records_with_token_pagination_def SupplierInfoStream_get_soap_envelope_def Let_def)
next
  assume a: "security_code (config t) = Some code' \<and> c' ''purchase_number'' = Some v"
  obtain res r' where call:
    "svc (remote w) ''PurchaseInfo'' ''ResponseValue''
       (PurchaseInfoStream_envelope code' (str_pyval v)) = (res, r')"
    by (cases "svc (remote w) ''PurchaseInfo'' ''ResponseValue''
                 (PurchaseInfoStream_envelope code' (str_pyval v))")
  show "let r = snd (PurchaseInfoStream_get_records
                      (get_records_with_token_pagination fuel svc PurchaseInfoStream_name
                         PurchaseInfoStream_paginate) t (Some c') w);
           envelope = PurchaseInfoStream_envelope code' (str_pyval v);
           answer = svc (remote w) ''PurchaseInfo'' ''ResponseValue'' envelope
       in requests (world r) = requests w @ [(''PurchaseInfo'', envelope)]
          \<and> remote (world r) = snd answer
          \<and> bookmarks (world r) = bookmarks w
          \<and> yielded r = (case fst answer of Inl e \<Rightarrow> [] | Inr p \<Rightarrow> items p)
          \<and> status r = (case fst answer of Inl e \<Rightarrow> Raised e | Inr p \<Rightarrow> Completed)"
    using a call
    by (cases res)
      (simp_all add: PurchaseInfoStream_get_records_def PurchaseInfoStream_paginate_def
         get_records_with_token_pagination_def PurchaseInfoStream_get_soap_envelope_def Let_def)
qed

theorem non_paginated_streams_send_one_request_witness:
  "security_code (config \<lparr>config = example_config, current_client_code = None\<rparr>) = Some ''secret''
   \<and> dict1 ''client_code'' (PStr ''A&B'') ''client_code'' = Some (PStr ''A&B'')
   \<and> requests (world (snd (SupplierInfoStream_get_records
            (get_records_with_token_pagination 0
               (scripted [Inr \<lparr>items = [[''SupplierCode'' \<mapsto> PStr ''A&B'']],
                               next_token = TInt 0, has_more = True\<rparr>])
               SupplierInfoStream_name SupplierInfoStream_paginate)
            \<lparr>config = example_config, current_client_code = None\<rparr>
            (Some (dict1 ''client_code'' (PStr ''A&B''))) empty_world)))
     = [(''SupplierInfo'', SupplierInfoStream_envelope ''secret'' ''A&amp;B'')]
   \<and> yielded (snd (SupplierInfoStream_get_records
            (get_records_with_token_pagination 0
               (scripted [Inr \<lparr>items = [[''SupplierCode'' \<mapsto> PStr ''A&B'']],
                               next_token = TInt 0, has_more = True\<rparr>])
               SupplierInfoStream_name SupplierInfoStream_paginate)
            \<lparr>config = example_config, current_client_code = None\<rparr>
            (Some (dict1 ''client_code'' (PStr ''A&B''))) empty_world))
     = [[''SupplierCode'' \<mapsto> PStr ''A&B'']]
   \<and> security_code (config \<lparr>config = example_config, current_purchase_number = None\<rparr>)
       = Some ''secret''
   \<and> dict1 ''purchase_number'' (PStr ''P7'') ''purchase_number'' = Some (PStr ''P7'')
   \<and> requests (world (snd (PurchaseInfoStream_get_records
            (get_records_with_token_pagination 0
               (scripted [Inr \<lparr>items = [[''SupplierCode'' \<mapsto> PStr ''A&B'']],
                               next_token = TInt 0, has_more = True\<rparr>])
               PurchaseInfoStream_name PurchaseInfoStream_paginate)
            \<lparr>config = example_config, current_purchase_number = None\<rparr>
            (Some (dict1 ''purchase_number'' (PStr ''P7''))) empty_world)))
     = [(''PurchaseInfo'', PurchaseInfoStream_envelope ''secret'' ''P7'')]
   \<and> status (snd (PurchaseInfoStream_get_records
            (get_records_with_token_pagination 0
               (scripted [Inr \<lparr>items = [[''SupplierCode'' \<mapsto> PStr ''A&B'']],
                               next_token = TInt 0, has_more = True\<rparr>])
               PurchaseInfoStream_name PurchaseInfoStream_paginate)
            \<lparr>config = example_config, current_purchase_number = None\<rparr>
            (Some (dict1 ''purchase_number'' (PStr ''P7''))) empty_world))
     = Completed"
proof -
  let ?svc = "scripted [Inr \<lparr>items = [[''SupplierCode'' \<mapsto> PStr ''A&B'']],
                               next_token = TInt 0, has_more = True\<rparr>]"
  let ?s = "\<lparr>config = example_config, current_client_code = None\<rparr>"
  let ?t = "\<lparr>config = example_config, current_purchase_number = None\<rparr>"
  have esc: "html_escape ''A&B'' = ''A&amp;B''"
    by (simp add: html_escape_def replace_char_def)
  have cfg: "security_code (config ?s) = Some ''secret''"
    "security_code (config ?t) = Some ''secret''"
    by (simp_all add: example_config_def)
  have keys: "dict1 ''client_code'' (PStr ''A&B'') ''client_code'' = Some (PStr ''A&B'')"
    "dict1 ''purchase_number'' (PStr ''P7'') ''purchase_number'' = Some (PStr ''P7'')"
    by (simp_all add: dict1_def)
  show ?thesis
    using non_paginated_streams_send_one_request
      [where s = ?s and code = "''secret''" and c = "dict1 ''client_code'' (PStr ''A&B'')"
         and k = "''A&B''" and fuel = 0 and svc = ?svc and w = empty_world
         and t = ?t and code' = "''secret''" and c' = "dict1 ''purchase_number'' (PStr ''P7'')"
         and v = "PStr ''P7''"]
      cfg keys
    by (simp add: Let_def esc scripted_def empty_world_def)
qed

section \<open>The envelope builders\<close>




section \<open>Escaping of the parent's key\<close>

text \<open>
  C9. With the security code configured, \<^verbatim>\<open>SupplierInfoStream.get_records\<close> stores the
  context's \<^verbatim>\<open>client_code\<close> and hands the engine a builder that always returns the
  supplier request with the HTML-escaped code between the \<^verbatim>\<open>supplierCode\<close> tags: each
  of the five special characters of the code replaced by its entity, all others kept.
  \<^verbatim>\<open>PurchaseInfoStream.get_records\<close> stores the context's \<^verbatim>\<open>purchase_number\<close> and
  hands the engine a builder that always returns the purchase request with the number
  between the \<^verbatim>\<open>purchaseNumber\<close> tags exactly as it is, unescaped.
\<close>

theorem child_envelopes_escape_asymmetrically:
  \<open>(security_code (config s) = Some code \<and> c ''client_code'' = Some (PStr k) \<longrightarrow>
      SupplierInfoStream_get_records engine s (Some c) w
        = (s\<lparr>current_client_code := Some (PStr k)\<rparr>,
           engine (\<lambda>tok cnt. Inr
                     (''<?xml version="1.0" encoding="utf-8"?>\<newline><soap12:Envelope xmlns:soap12="http://www.w3.org/2003/05/soap-envelope">\<newline>  <soap12:Body>\<newline>    <tns:SupplierInfo xmlns:tns="http://sherpa.sherpaan.nl/">\<newline>      <tns:securityCode>''
                      @ code
                      @ ''</tns:securityCode>\<newline>      <tns:supplierCode>''
                      @ concat (map html_entity k)
                      @ ''</tns:supplierCode>\<newline>    </tns:SupplierInfo>\<newline>  </soap12:Body>\<newline></soap12:Envelope>''))
             ''SupplierInfo'' ''ResponseValue'' (Some c) (page_size_of (config s)) w))
   \<and> (security_code (config t) = Some code' \<and> c' ''purchase_number'' = Some (PStr n) \<longrightarrow>
      PurchaseInfoStream_get_records engine' t (Some c') w'
        = (t\<lparr>current_purchase_number := Some (PStr n)\<rparr>,
           engine' (\<lambda>tok cnt. Inr
                      (''<?xml version="1.0" encoding="utf-8"?>\<newline><soap12:Envelope xmlns:soap12="http://www.w3.org/2003/05/soap-envelope">\<newline>  <soap12:Body>\<newline>    <tns:PurchaseInfo xmlns:tns="http://sherpa.sherpaan.nl/">\<newline>      <tns:securityCode>''
                       @ code'
                       @ ''</tns:securityCode>\<newline>      <tns:purchaseNumber>''
                       @ n
                       @ ''</tns:purchaseNumber>\<newline>    </tns:PurchaseInfo>\<newline>  </soap12:Body>\<newline></soap12:Envelope>''))
             ''PurchaseInfo'' ''ResponseValue'' (Some c') (page_size_of (config t)) w'))\<close>
proof (intro conjI impI)
  assume a: \<open>security_code (config s) = Some code \<and> c ''client_code'' = Some (PStr k)\<close>
  then have \<open>SupplierInfoStream_get_soap_envelope (s\<lparr>current_client_code := Some (PStr k)\<rparr>)
               = (\<lambda>tok cnt. Inr
                     (''<?xml version="1.0" encoding="utf-8"?>\<newline><soap12:Envelope xmlns:soap12="http://www.w3.org/2003/05/soap-envelope">\<newline>  <soap12:Body>\<newline>    <tns:SupplierInfo xmlns:tns="http://sherpa.sherpaan.nl/">\<newline>      <tns:securityCode>''
                      @ code
                      @ ''</tns:securityCode>\<newline>      <tns:supplierCode>''
                      @ concat (map html_entity k)
                      @ ''</tns:supplierCode>\<newline>    </tns:SupplierInfo>\<newline>  </soap12:Body>\<newline></soap12:Envelope>''))\<close>
    by (intro ext)
      (simp add: SupplierInfoStream_get_soap_envelope_def SupplierInfoStream_envelope_def
         html_escape_entities)
  with a show \<open>SupplierInfoStream_get_records engine s (Some c) w
        = (s\<lparr>current_client_code := Some (PStr k)\<rparr>,
           engine (\<lambda>tok cnt. Inr
                     (''<?xml version="1.0" encoding="utf-8"?>\<newline><soap12:Envelope xmlns:soap12="http://www.w3.org/2003/05/soap-envelope">\<newline>  <soap12:Body>\<newline>    <tns:SupplierInfo xmlns:tns="http://sherpa.sherpaan.nl/">\<newline>      <tns:securityCode>''
                      @ code
                      @ ''</tns:securityCode>\<newline>      <tns:supplierCode>''
                      @ concat (map html_entity k)
                      @ ''</tns:supplierCode>\<newline>    </tns:SupplierInfo>\<newline>  </soap12:Body>\<newline></soap12:Envelope>''))
             ''SupplierInfo'' ''ResponseValue'' (Some c) (page_size_of (config s)) w)\<close>
    by (simp add: SupplierInfoStream_get_records_def Let_def)
next
  assume a: \<open>security_code (config t) = Some code' \<and> c' ''purchase_number'' = Some (PStr n)\<close>
  then have \<open>PurchaseInfoStream_get_soap_envelope (t\<lparr>current_purchase_number := Some (PStr n)\<rparr>)
               = (\<lambda>tok cnt. Inr
                      (''<?xml version="1.0" encoding="utf-8"?>\<newline><soap12:Envelope xmlns:soap12="http://www.w3.org/2003/05/soap-envelope">\<newline>  <soap12:Body>\<newline>    <tns:PurchaseInfo xmlns:tns="http://sherpa.sherpaan.nl/">\<newline>      <tns:securityCode>''
                       @ code'
                       @ ''</tns:securityCode>\<newline>      <tns:purchaseNumber>''
                       @ n
                       @ ''</tns:purchaseNumber>\<newline>    </tns:PurchaseInfo>\<newline>  </soap12:Body>\<newline></soap12:Envelope>''))\<close>
    by (intro ext)
      (simp add: PurchaseInfoStream_get_soap_envelope_def PurchaseInfoStream_envelope_def)
  with a show \<open>PurchaseInfoStream_get_records engine' t (Some c') w'
        = (t\<lparr>current_purchase_number := Some (PStr n)\<rparr>,
           engine' (\<lambda>tok cnt. Inr
                      (''<?xml version="1.0" encoding="utf-8"?>\<newline><soap12:Envelope xmlns:soap12="http://www.w3.org/2003/05/soap-envelope">\<newline>  <soap12:Body>\<newline>    <tns:PurchaseInfo xmlns:tns="http://sherpa.sherpaan.nl/">\<newline>      <tns:securityCode>''
                       @ code'
                       @ ''</tns:securityCode>\<newline>      <tns:purchaseNumber>''
                       @ n
                       @ ''</tns:purchaseNumber>\<newline>    </tns:PurchaseInfo>\<newline>  </soap12:Body>\<newline></soap12:Envelope>''))
             ''PurchaseInfo'' ''ResponseValue'' (Some c') (page_size_of (config t)) w')\<close>
    by (simp add: PurchaseInfoStream_get_records_def Let_def)
qed

theorem child_envelopes_escape_asymmetrically_witness:
  \<open>security_code (config \<lparr>config = example_config, current_client_code = None\<rparr>) = Some ''secret''
   \<and> dict1 ''client_code'' (PStr ''<A&B>'') ''client_code'' = Some (PStr ''<A&B>'')
   \<and> requests (world (snd (SupplierInfoStream_get_records
         (get_records_with_token_pagination 0 (scripted []) SupplierInfoStream_name
            SupplierInfoStream_paginate)
         \<lparr>config = example_config, current_client_code = None\<rparr>
         (Some (dict1 ''client_code'' (PStr ''<A&B>''))) empty_world)))
     = [(''SupplierInfo'',
         ''<?xml version="1.0" encoding="utf-8"?>\<newline><soap12:Envelope xmlns:soap12="http://www.w3.org/2003/05/soap-envelope">\<newline>  <soap12:Body>\<newline>    <tns:SupplierInfo xmlns:tns="http://sherpa.sherpaan.nl/">\<newline>      <tns:securityCode>''
         @ ''secret''
         @ ''</tns:securityCode>\<newline>      <tns:supplierCode>''
         @ ''&lt;A&amp;B&gt;''
         @ ''</tns:supplierCode>\<newline>    </tns:SupplierInfo>\<newline>  </soap12:Body>\<newline></soap12:Envelope>'')]
   \<and> security_code (config \<lparr>config = example_config, current_purchase_number = None\<rparr>)
       = Some ''secret''
   \<and> dict1 ''purchase_number'' (PStr ''<A&B>'') ''purchase_number'' = Some (PStr ''<A&B>'')
   \<and> requests (world (snd (PurchaseInfoStream_get_records
         (get_records_with_token_pagination 0 (scripted []) PurchaseInfoStream_name
            PurchaseInfoStream_paginate)
         \<lparr>config = example_config, current_purchase_number = None\<rparr>
         (Some (dict1 ''purchase_number'' (PStr ''<A&B>''))) empty_world)))
     = [(''PurchaseInfo'',
         ''<?xml version="1.0" encoding="utf-8"?>\<newline><soap12:Envelope xmlns:soap12="http://www.w3.org/2003/05/soap-envelope">\<newline>  <soap12:Body>\<newline>    <tns:PurchaseInfo xmlns:tns="http://sherpa.sherpaan.nl/">\<newline>      <tns:securityCode>''
         @ ''secret''
         @ ''</tns:securityCode>\<newline>      <tns:purchaseNumber>''
         @ ''<A&B>''
         @ ''</tns:purchaseNumber>\<newline>    </tns:PurchaseInfo>\<newline>  </soap12:Body>\<newline></soap12:Envelope>'')]\<close>
proof -
  have cfg: \<open>security_code (config \<lparr>config = example_config, current_client_code = None\<rparr>)
               = Some ''secret''\<close>
    \<open>security_code (config \<lparr>config = example_config, current_purchase_number = None\<rparr>)
               = Some ''secret''\<close>
    by (simp_all add: example_config_def)
  have keys: \<open>dict1 ''client_code'' (PStr ''<A&B>'') ''client_code'' = Some (PStr ''<A&B>'')\<close>
    \<open>dict1 ''purchase_number'' (PStr ''<A&B>'') ''purchase_number'' = Some (PStr ''<A&B>'')\<close>
    by (simp_all add: dict1_def)
  show ?thesis
    using child_envelopes_escape_asymmetrically
      [where s = \<open>\<lparr>config = example_config, current_client_code = None\<rparr>\<close>
         and code = \<open>''secret''\<close> and c = \<open>dict1 ''client_code'' (PStr ''<A&B>'')\<close>
         and k = \<open>''<A&B>''\<close>
         and engine = \<open>get_records_with_token_pagination 0 (scripted [])
                         SupplierInfoStream_name SupplierInfoStream_paginate\<close>
         and w = empty_world
         and t = \<open>\<lparr>config = example_config, current_purchase_number = None\<rparr>\<close>
         and code' = \<open>''secret''\<close> and c' = \<open>dict1 ''purchase_number'' (PStr ''<A&B>'')\<close>
         and n = \<open>''<A&B>''\<close>
         and engine' = \<open>get_records_with_token_pagination 0 (scripted [])
                          PurchaseInfoStream_name PurchaseInfoStream_paginate\<close>
         and w' = empty_world]
      cfg keys
    by (simp add: html_entity_def get_records_with_token_pagination_def
          SupplierInfoStream_paginate_def PurchaseInfoStream_paginate_def scripted_def
          empty_world_def Let_def)
qed

section \<open>A child stream without its context\<close>

text \<open>
  C10. Whatever the engine is, \<^verbatim>\<open>get_records\<close> of a child stream that is given no
  context, or a context without the stream's key, raises (\<^verbatim>\<open>TypeError\<close> for
  \<^verbatim>\<open>None\<close>, \<^verbatim>\<open>KeyError\<close> for the missing key) with nothing yielded, the world
  untouched (so no request sent) and the stream object unchanged: the engine is not called
  and no envelope is built.
\<close>

theorem child_streams_fail_without_context:
  "SupplierInfoStream_get_records engine s None w
     = (s, \<lparr>yielded = [], status = Raised TypeError, world = w\<rparr>)
   \<and> (c ''client_code'' = None \<longrightarrow>
        SupplierInfoStream_get_records engine s (Some c) w
          = (s, \<lparr>yielded = [], status = Raised (KeyError ''client_code''), world = w\<rparr>))
   \<and> PurchaseInfoStream_get_records engine' t None w'
     = (t, \<lparr>yielded = [], status = Raised TypeError, world = w'\<rparr>)
   \<and> (c' ''purchase_number'' = None \<longrightarrow>
        PurchaseInfoStream_get_records engine' t (Some c') w'
          = (t, \<lparr>yielded = [], status = Raised (KeyError ''purchase_number''), world = w'\<rparr>))"
  by (simp add: SupplierInfoStream_get_records_def PurchaseInfoStream_get_records_def)

theorem child_streams_fail_without_context_witness:
  "dict1 ''purchase_number'' (PStr ''P7'') ''client_code'' = None
   \<and> SupplierInfoStream_get_records
        (get_records_with_token_pagination 0 (scripted []) SupplierInfoStream_name
           SupplierInfoStream_paginate)
        \<lparr>config = example_config, current_client_code = None\<rparr>
        (Some (dict1 ''purchase_number'' (PStr ''P7''))) empty_world
     = (\<lparr>config = example_config, current_client_code = None\<rparr>,
        \<lparr>yielded = [], status = Raised (KeyError ''client_code''), world = empty_world\<rparr>)
   \<and> Map.empty ''purchase_number'' = (None :: pyval option)
   \<and> PurchaseInfoStream_get_records
        (get_records_with_token_pagination 0 (scripted []) PurchaseInfoStream_name
           PurchaseInfoStream_paginate)
        \<lparr>config = example_config, current_purchase_number = None\<rparr>
        (Some Map.empty) empty_world
     = (\<lparr>config = example_config, current_purchase_number = None\<rparr>,
        \<lparr>yielded = [], status = Raised (KeyError ''purchase_number''), world = empty_world\<rparr>)"
proof -
  have key: "dict1 ''purchase_number'' (PStr ''P7'') ''client_code'' = None"
    by (simp add: dict1_def)
  show ?thesis
    using child_streams_fail_without_context
      [where c = "dict1 ''purchase_number'' (PStr ''P7'')"
         and engine = "get_records_with_token_pagination 0 (scripted [])
                         SupplierInfoStream_name SupplierInfoStream_paginate"
         and s = "\<lparr>config = example_config, current_client_code = None\<rparr>"
         and w = empty_world and c' = Map.empty
         and engine' = "get_records_with_token_pagination 0 (scripted [])
                          PurchaseInfoStream_name PurchaseInfoStream_paginate"
         and t = "\<lparr>config = example_config, current_purchase_number = None\<rparr>"
         and w' = empty_world]
      key
    by simp
qed

end
